theory Spec2Isabelle
  imports Complex_Main
begin

section \<open>Library primitives the handlers rely on\<close>

text \<open>
  The application is Python on Flask. Three library primitives decide the claims:
  \<^verbatim>\<open>int(str)\<close>, \<^verbatim>\<open>str.strip()\<close>/\<^verbatim>\<open>str.lower()\<close> and the \<^verbatim>\<open>datetime\<close> module
  (\<^verbatim>\<open>strptime\<close> with the format \<^verbatim>\<open>%Y-%m-%d\<close>, \<^verbatim>\<open>date.replace\<close>, comparison, \<^verbatim>\<open>+ timedelta\<close>,
  \<^verbatim>\<open>strftime\<close>). They are modelled here as executable functions. A Python string is a
  \<open>string\<close> whose characters stand for code points below 256; Python's unbounded
  \<^verbatim>\<open>int\<close> is \<open>int\<close>; a Python \<^verbatim>\<open>float\<close> price is a \<open>real\<close> (the claims compare the
  same product on both sides, so rounding plays no part).
\<close>

subsection \<open>Characters and strings\<close>

definition is_digit :: "char \<Rightarrow> bool" where
  "is_digit c = (48 \<le> (of_char c :: nat) \<and> (of_char c :: nat) \<le> 57)"

definition digit_val :: "char \<Rightarrow> nat" where
  "digit_val c = (of_char c :: nat) - 48"

text \<open>The characters below 256 for which \<^verbatim>\<open>str.isspace()\<close> holds; \<^verbatim>\<open>strip()\<close> removes
  them at both ends.\<close>

definition is_space :: "char \<Rightarrow> bool" where
  "is_space c =
     (let n = (of_char c :: nat)
      in (9 \<le> n \<and> n \<le> 13) \<or> (28 \<le> n \<and> n \<le> 32) \<or> n = 133 \<or> n = 160)"

definition py_strip :: "string \<Rightarrow> string" where
  "py_strip s = rev (dropWhile is_space (rev (dropWhile is_space s)))"

text \<open>\<^verbatim>\<open>str.lower()\<close> below 256: A-Z and the Latin-1 capitals (all of 192..222 but the
  multiplication sign 215) move up by 32.\<close>

definition lower_char :: "char \<Rightarrow> char" where
  "lower_char c =
     (let n = (of_char c :: nat)
      in if (65 \<le> n \<and> n \<le> 90) \<or> (192 \<le> n \<and> n \<le> 222 \<and> n \<noteq> 215)
         then char_of (n + 32) else c)"

definition py_lower :: "string \<Rightarrow> string" where
  "py_lower s = map lower_char s"

text \<open>\<^verbatim>\<open>sub in s\<close> on strings: \<open>sub\<close> occurs as a contiguous slice of \<open>s\<close>.\<close>

fun py_in :: "string \<Rightarrow> string \<Rightarrow> bool" where
  "py_in sub [] = (sub = [])"
| "py_in sub (c # cs) = (take (length sub) (c # cs) = sub \<or> py_in sub cs)"

subsection \<open>\<^verbatim>\<open>int(str)\<close>\<close>

text \<open>
  \<^verbatim>\<open>int(s)\<close> in base 10 skips whitespace at both ends, allows one sign, and then reads
  decimal digits, where single underscores may stand between two digits. Anything else
  raises \<^verbatim>\<open>ValueError\<close>, here \<open>None\<close>.

  The whitespace \<^verbatim>\<open>int\<close> skips is narrower than that of \<^verbatim>\<open>strip()\<close>: tab to carriage
  return (9..13), the space, and the two spaces above 127 (133 and 160), which the
  conversion turns into a space first. The separators 28..31 count as whitespace for
  \<^verbatim>\<open>strip()\<close> but not here, so \<^verbatim>\<open>int("\x1c5")\<close> raises.

  Since Python 3.11 a numeral of more than 4300 digits raises \<^verbatim>\<open>ValueError\<close> too
  (\<^verbatim>\<open>sys.get_int_max_str_digits()\<close>); leading zeros count, the sign and underscores do not.

  \<open>digits_acc acc after_digit s\<close> reads the digit run; \<open>after_digit\<close> tells whether the
  previous character was a digit, which is where an underscore or the end may come.
\<close>

definition is_int_space :: "char \<Rightarrow> bool" where
  "is_int_space c =
     (let n = (of_char c :: nat) in (9 \<le> n \<and> n \<le> 13) \<or> n = 32 \<or> n = 133 \<or> n = 160)"

definition int_strip :: "string \<Rightarrow> string" where
  "int_strip s = rev (dropWhile is_int_space (rev (dropWhile is_int_space s)))"

definition MAX_STR_DIGITS :: nat where
  "MAX_STR_DIGITS = 4300"

fun digits_acc :: "nat \<Rightarrow> bool \<Rightarrow> string \<Rightarrow> nat option" where
  "digits_acc acc after_digit [] = (if after_digit then Some acc else None)"
| "digits_acc acc after_digit (c # cs) =
     (if is_digit c then digits_acc (10 * acc + digit_val c) True cs
      else if c = CHR ''_'' \<and> after_digit then digits_acc acc False cs
      else None)"

text \<open>The numeral after the sign: refused when it has too many digits, read otherwise.\<close>

definition int_digits :: "string \<Rightarrow> nat option" where
  "int_digits body =
     (if length (filter is_digit body) > MAX_STR_DIGITS then None else digits_acc 0 False body)"

definition py_int :: "string \<Rightarrow> int option" where
  "py_int s =
     (case int_strip s of
        [] \<Rightarrow> None
      | c # cs \<Rightarrow>
          if c = CHR ''-'' then map_option (\<lambda>n. - int n) (int_digits cs)
          else if c = CHR ''+'' then map_option int (int_digits cs)
          else map_option int (int_digits (c # cs)))"

subsection \<open>Calendar dates\<close>

record date =
  year :: nat
  month :: nat
  day :: nat

definition is_leap :: "nat \<Rightarrow> bool" where
  "is_leap y = (y mod 4 = 0 \<and> (y mod 100 \<noteq> 0 \<or> y mod 400 = 0))"

definition days_in_month :: "nat \<Rightarrow> nat \<Rightarrow> nat" where
  "days_in_month y m =
     (if m = 2 then (if is_leap y then 29 else 28)
      else if m = 4 \<or> m = 6 \<or> m = 9 \<or> m = 11 then 30 else 31)"

text \<open>The constructor \<^verbatim>\<open>date(y, m, d)\<close> raises \<^verbatim>\<open>ValueError\<close> outside the calendar
  (years 1 to 9999); \<open>mk_date\<close> returns \<open>None\<close> there.\<close>

definition date_valid :: "date \<Rightarrow> bool" where
  "date_valid d =
     (1 \<le> year d \<and> year d \<le> 9999 \<and> 1 \<le> month d \<and> month d \<le> 12 \<and>
      1 \<le> day d \<and> day d \<le> days_in_month (year d) (month d))"

definition mk_date :: "nat \<Rightarrow> nat \<Rightarrow> nat \<Rightarrow> date option" where
  "mk_date y m d =
     (let r = \<lparr>year = y, month = m, day = d\<rparr> in if date_valid r then Some r else None)"

text \<open>\<^verbatim>\<open>today.replace(year=...)\<close>, \<^verbatim>\<open>today.replace(day=...)\<close> and
  \<^verbatim>\<open>today.replace(month=..., day=...)\<close> build a new date and so raise like the constructor.\<close>

definition replace_year :: "date \<Rightarrow> nat \<Rightarrow> date option" where
  "replace_year d y = mk_date y (month d) (day d)"

definition replace_day :: "date \<Rightarrow> nat \<Rightarrow> date option" where
  "replace_day d n = mk_date (year d) (month d) n"

definition replace_month_day :: "date \<Rightarrow> nat \<Rightarrow> nat \<Rightarrow> date option" where
  "replace_month_day d m n = mk_date (year d) m n"

text \<open>Dates compare as the triples (year, month, day).\<close>

definition date_less :: "date \<Rightarrow> date \<Rightarrow> bool" where
  "date_less a b =
     (year a < year b \<or> (year a = year b \<and>
        (month a < month b \<or> (month a = month b \<and> day a < day b))))"

definition date_le :: "date \<Rightarrow> date \<Rightarrow> bool" where
  "date_le a b = (\<not> date_less b a)"

text \<open>
  \<^verbatim>\<open>d + timedelta(days=n)\<close> is \<^verbatim>\<open>date.fromordinal(d.toordinal() + n)\<close>, and
  \<^verbatim>\<open>OverflowError\<close> (here \<open>None\<close>) when the ordinal lies after 9999-12-31, which is day
  3652059. The two conversions follow the library's \<^verbatim>\<open>_ymd2ord\<close> and \<^verbatim>\<open>_ord2ymd\<close>.
\<close>

definition days_before_year :: "nat \<Rightarrow> nat" where
  "days_before_year y = (let p = y - 1 in p * 365 + p div 4 - p div 100 + p div 400)"

definition days_before_month :: "nat \<Rightarrow> nat \<Rightarrow> nat" where
  "days_before_month y m =
     [0, 0, 31, 59, 90, 120, 151, 181, 212, 243, 273, 304, 334] ! m +
     (if m > 2 \<and> is_leap y then 1 else 0)"

definition toordinal :: "date \<Rightarrow> nat" where
  "toordinal d = days_before_year (year d) + days_before_month (year d) (month d) + day d"

definition fromordinal :: "nat \<Rightarrow> date" where
  "fromordinal ord =
     (let n = ord - 1;
          n400 = n div 146097; n = n mod 146097;
          n100 = n div 36524; n = n mod 36524;
          n4 = n div 1461; n = n mod 1461;
          n1 = n div 365; n = n mod 365;
          y = n400 * 400 + 1 + n100 * 100 + n4 * 4 + n1
      in if n1 = 4 \<or> n100 = 4 then \<lparr>year = y - 1, month = 12, day = 31\<rparr>
         else
           let leapyear = (n1 = 3 \<and> (n4 \<noteq> 24 \<or> n100 = 3));
               m = (n + 50) div 32;
               preceding = [0, 0, 31, 59, 90, 120, 151, 181, 212, 243, 273, 304, 334] ! m +
                           (if m > 2 \<and> leapyear then 1 else 0)
           in if preceding > n
              then let m' = m - 1;
                       preceding' = preceding -
                         ([0, 31, 28, 31, 30, 31, 30, 31, 31, 30, 31, 30, 31] ! m' +
                          (if m' = 2 \<and> leapyear then 1 else 0))
                   in \<lparr>year = y, month = m', day = n - preceding' + 1\<rparr>
              else \<lparr>year = y, month = m, day = n - preceding + 1\<rparr>)"

definition date_add_days :: "date \<Rightarrow> nat \<Rightarrow> date option" where
  "date_add_days d n =
     (let ord = toordinal d + n in if ord \<le> 3652059 then Some (fromordinal ord) else None)"

subsection \<open>\<^verbatim>\<open>strptime(s, "%Y-%m-%d")\<close> and \<^verbatim>\<open>strftime\<close>\<close>

text \<open>
  The format compiles to the regular expression
  \<^verbatim>\<open>(\d\d\d\d)-(1[0-2]|0[1-9]|[1-9])-(3[01]|[12]\d|0[1-9]|[1-9]| [1-9])\<close>, matched at the start
  of the string; text left over after the match raises \<^verbatim>\<open>ValueError\<close>, and so does a
  triple that is no calendar date. \<open>parse_month\<close> returns the month and the text after
  the dash that follows it; \<open>parse_day\<close> must use up the rest.
\<close>

definition parse_year :: "string \<Rightarrow> (nat \<times> string) option" where
  "parse_year s =
     (case s of
        a # b # c # d # e # rest \<Rightarrow>
          if is_digit a \<and> is_digit b \<and> is_digit c \<and> is_digit d \<and> e = CHR ''-''
          then Some (1000 * digit_val a + 100 * digit_val b + 10 * digit_val c + digit_val d, rest)
          else None
      | _ \<Rightarrow> None)"

definition parse_month :: "string \<Rightarrow> (nat \<times> string) option" where
  "parse_month s =
     (case s of
        a # b # rest \<Rightarrow>
          if a = CHR ''1'' \<and> (b = CHR ''0'' \<or> b = CHR ''1'' \<or> b = CHR ''2'') \<and>
             take 1 rest = ''-''
          then Some (10 + digit_val b, drop 1 rest)
          else if a = CHR ''0'' \<and> is_digit b \<and> b \<noteq> CHR ''0'' \<and> take 1 rest = ''-''
          then Some (digit_val b, drop 1 rest)
          else if is_digit a \<and> a \<noteq> CHR ''0'' \<and> b = CHR ''-''
          then Some (digit_val a, rest)
          else None
      | _ \<Rightarrow> None)"

definition parse_day :: "string \<Rightarrow> nat option" where
  "parse_day s =
     (case s of
        [a] \<Rightarrow> if is_digit a \<and> a \<noteq> CHR ''0'' then Some (digit_val a) else None
      | [a, b] \<Rightarrow>
          if a = CHR ''3'' \<and> (b = CHR ''0'' \<or> b = CHR ''1'') then Some (30 + digit_val b)
          else if (a = CHR ''1'' \<or> a = CHR ''2'') \<and> is_digit b
          then Some (10 * digit_val a + digit_val b)
          else if (a = CHR ''0'' \<or> a = CHR '' '') \<and> is_digit b \<and> b \<noteq> CHR ''0''
          then Some (digit_val b)
          else None
      | _ \<Rightarrow> None)"

definition strptime :: "string \<Rightarrow> date option" where
  "strptime s =
     (case parse_year s of
        None \<Rightarrow> None
      | Some (y, s1) \<Rightarrow>
          (case parse_month s1 of
             None \<Rightarrow> None
           | Some (m, s2) \<Rightarrow>
               (case parse_day s2 of
                  None \<Rightarrow> None
                | Some d \<Rightarrow> mk_date y m d)))"

definition dec2 :: "nat \<Rightarrow> string" where
  "dec2 n = [''0123456789'' ! ((n div 10) mod 10), ''0123456789'' ! (n mod 10)]"

text \<open>\<^verbatim>\<open>strftime("%Y-%m-%d")\<close> of a date, the year written with four digits.\<close>

definition strftime_date :: "date \<Rightarrow> string" where
  "strftime_date d =
     dec2 (year d div 100) @ dec2 (year d mod 100) @ ''-'' @ dec2 (month d) @ ''-'' @ dec2 (day d)"

section \<open>Data model (models.py)\<close>

text \<open>
  The four dataclasses. \<^verbatim>\<open>Optional\<close> fields are options. \<^verbatim>\<open>Tour.price\<close> is declared
  \<^verbatim>\<open>float\<close>, but the code that reads it writes \<^verbatim>\<open>(t.price or 0)\<close> and
  \<^verbatim>\<open>... else tour.price) or 0\<close>, so the model lets it be absent too. Field names carry the
  record's initial, since every dataclass has an \<^verbatim>\<open>id\<close>.
\<close>

record tour =
  t_id :: int
  t_title :: string
  t_description :: string
  t_price :: "real option"
  t_city :: string
  t_country :: string
  t_type :: string
  t_duration_days :: int
  t_photo_url :: "string option"
  t_venue :: "string option"
  t_address :: "string option"
  t_timezone :: "string option"
  t_start_date :: "string option"
  t_end_date :: "string option"
  t_start_time :: "string option"
  t_ticket_url :: "string option"
  t_currency :: "string option"
  t_min_price :: "real option"
  t_max_price :: "real option"
  t_external_id :: "string option"
  t_lat :: "string option"
  t_lng :: "string option"
  t_categories :: "string list"

record user =
  u_id :: int
  u_email :: "string option"
  u_password_hash :: string
  u_role :: string
  u_first_name :: "string option"
  u_last_name :: "string option"
  u_phone :: "string option"

record booking =
  b_id :: int
  b_tour_id :: int
  b_user_id :: int
  b_booking_date :: string
  b_travel_date :: string
  b_passengers :: int
  b_total_price :: real
  b_status :: string

record feedback =
  f_id :: int
  f_user_id :: int
  f_subject :: string
  f_message :: string
  f_created_at :: string
  f_status :: string
  f_admin_response :: "string option"
  f_admin_id :: "int option"
  f_responded_at :: "string option"
  f_priority :: string
  f_category :: string

section \<open>Application state, session and responses\<close>

text \<open>
  The module-level repositories are one record, passed in and returned. The Flask
  session holds \<^verbatim>\<open>user_id\<close>, \<^verbatim>\<open>email\<close>, \<^verbatim>\<open>role\<close>, the pending booking intent
  \<^verbatim>\<open>booking_data\<close> and the flashed messages. The messages are Russian sentences in the
  source; here each is a constructor, paired with its category as \<^verbatim>\<open>flash(msg, category)\<close>
  takes it.
\<close>

record app_state =
  tours :: "tour list"
  bookings :: "booking list"
  booking_next_id :: int
  users :: "user list"
  user_next_id :: int
  feedbacks :: "feedback list"
  feedback_next_id :: int

record booking_data =
  bd_tour_id :: int
  bd_travel_date :: string
  bd_passengers :: int

datatype flash_msg =
    PassengersOutOfRange | PassengersNotANumber | TravelDateMissing | TravelDateInPast
  | TravelDateTooFar | TravelDateBadFormat | RegisterToFinishBooking
  | PasswordsDiffer | PasswordTooShort | EmailTaken | BookingDataInvalid
  | RegisteredAndBooked | RegisteredNowLogIn
  | LoginToCancel | BookingNotFound | NotYourBooking | TooLateToCancel | TravelDateError
  | BookingCancelled | CancelFailed
  | LoginForFeedback | SubjectMissing | MessageMissing | SubjectTooLong | MessageTooLong
  | FeedbackSent

record session =
  s_user_id :: "int option"
  s_email :: "string option"
  s_role :: "string option"
  s_booking_data :: "booking_data option"
  s_flashes :: "(flash_msg \<times> string) list"

datatype endpoint =
    TourDetail int | Register | Login | Home | MyBookings | BookingConfirmation int
  | FeedbackForm | MyFeedback

datatype py_error = TypeError | OverflowError | KeyError

datatype response =
    Render404
  | RenderBooking tour booking "user option" int
  | Redirect endpoint
  | InternalServerError py_error

definition flash :: "flash_msg \<Rightarrow> string \<Rightarrow> session \<Rightarrow> session" where
  "flash msg category sess = sess\<lparr>s_flashes := s_flashes sess @ [(msg, category)]\<rparr>"

text \<open>\<^verbatim>\<open>session.get("user_id")\<close> used as a condition holds when the key is present
  and not 0; \<open>logged_in\<close> returns the id then, which is what \<^verbatim>\<open>session["user_id"]\<close> reads
  afterwards.\<close>

definition logged_in :: "session \<Rightarrow> int option" where
  "logged_in sess =
     (case s_user_id sess of None \<Rightarrow> None | Some i \<Rightarrow> if i = 0 then None else Some i)"

section \<open>Repositories\<close>

subsection \<open>booking_repo.py\<close>

definition booking_get_next_id :: "app_state \<Rightarrow> int \<times> app_state" where
  "booking_get_next_id st = (booking_next_id st, st\<lparr>booking_next_id := booking_next_id st + 1\<rparr>)"

definition add_booking :: "booking \<Rightarrow> app_state \<Rightarrow> app_state" where
  "add_booking b st = st\<lparr>bookings := bookings st @ [b]\<rparr>"

fun booking_get_by_id :: "booking list \<Rightarrow> int \<Rightarrow> booking option" where
  "booking_get_by_id [] i = None"
| "booking_get_by_id (b # bs) i = (if b_id b = i then Some b else booking_get_by_id bs i)"

text \<open>\<^verbatim>\<open>BookingRepository.cancel_booking\<close>: the loop stops at the first booking with the
  id, sets its status and returns \<^verbatim>\<open>True\<close>; \<^verbatim>\<open>False\<close> when the loop runs out.\<close>

fun repo_cancel_booking :: "booking list \<Rightarrow> int \<Rightarrow> bool \<times> booking list" where
  "repo_cancel_booking [] i = (False, [])"
| "repo_cancel_booking (b # bs) i =
     (if b_id b = i then (True, b\<lparr>b_status := ''cancelled''\<rparr> # bs)
      else (let (ok, bs') = repo_cancel_booking bs i in (ok, b # bs')))"

subsection \<open>user_repo.py\<close>

definition user_get_next_id :: "app_state \<Rightarrow> int \<times> app_state" where
  "user_get_next_id st = (user_next_id st, st\<lparr>user_next_id := user_next_id st + 1\<rparr>)"

definition add_user :: "user \<Rightarrow> app_state \<Rightarrow> app_state" where
  "add_user u st = st\<lparr>users := users st @ [u]\<rparr>"

fun user_get_by_id :: "user list \<Rightarrow> int \<Rightarrow> user option" where
  "user_get_by_id [] i = None"
| "user_get_by_id (u # us) i = (if u_id u = i then Some u else user_get_by_id us i)"

fun get_by_email :: "user list \<Rightarrow> string option \<Rightarrow> user option" where
  "get_by_email [] e = None"
| "get_by_email (u # us) e = (if u_email u = e then Some u else get_by_email us e)"

subsection \<open>tours_repo.py: lookup\<close>

text \<open>\<^verbatim>\<open>next((t for t in self._tours if t.id == tour_id), None)\<close>.\<close>

fun tour_get_by_id :: "tour list \<Rightarrow> int \<Rightarrow> tour option" where
  "tour_get_by_id [] i = None"
| "tour_get_by_id (t # ts) i = (if t_id t = i then Some t else tour_get_by_id ts i)"

section \<open>Booking workflow (blueprints/public.py, blueprints/auth.py)\<close>

subsection \<open>The travel-date check\<close>

text \<open>
  \<^verbatim>\<open>book_tour\<close> (public.py, lines 73 to 89) and \<^verbatim>\<open>register_post\<close> (auth.py, lines 84 to
  103) run the same \<^verbatim>\<open>try\<close> block on the travel date; only the messages and redirects
  differ, so the block is one function here and each handler maps its outcome.
  \<^verbatim>\<open>
      travel_date_obj = datetime.strptime(travel_date, "%Y-%m-%d").date()
      today = datetime.now().date()
      if travel_date_obj < today: ... return
      max_future_date = today.replace(year=today.year + 1)
      if travel_date_obj > max_future_date: ... return
  except ValueError: ... return
  \<close>
  Both \<^verbatim>\<open>strptime\<close> and \<^verbatim>\<open>replace\<close> raise \<^verbatim>\<open>ValueError\<close>, and the one handler catches both.
\<close>

datatype date_check = DateOk | DateInPast | DateTooFar | DateValueError

definition check_travel_date :: "date \<Rightarrow> string \<Rightarrow> date_check" where
  "check_travel_date today travel_date =
     (case strptime travel_date of
        None \<Rightarrow> DateValueError
      | Some travel_date_obj \<Rightarrow>
          if date_less travel_date_obj today then DateInPast
          else (case replace_year today (year today + 1) of
                  None \<Rightarrow> DateValueError
                | Some max_future_date \<Rightarrow>
                    if date_less max_future_date travel_date_obj then DateTooFar else DateOk))"

subsection \<open>POST /book/<tour_id>\<close>

record book_form =
  bf_travel_date :: "string option"
  bf_passengers :: "string option"

text \<open>\<^verbatim>\<open>int(request.form.get("passengers", 1))\<close>: the default 1 when the field is absent.\<close>

definition form_passengers :: "book_form \<Rightarrow> int option" where
  "form_passengers form = (case bf_passengers form of None \<Rightarrow> Some 1 | Some p \<Rightarrow> py_int p)"

text \<open>
  \<^verbatim>\<open>(tour.min_price if tour.min_price is not None
      else (tour.max_price if tour.max_price is not None else tour.price)) or 0\<close>;
  the trailing \<^verbatim>\<open>or 0\<close> replaces \<^verbatim>\<open>None\<close> and \<^verbatim>\<open>0.0\<close> by 0.
\<close>

definition unit_price :: "tour \<Rightarrow> real" where
  "unit_price t =
     (case (case t_min_price t of
              Some p \<Rightarrow> Some p
            | None \<Rightarrow> (case t_max_price t of Some p \<Rightarrow> Some p | None \<Rightarrow> t_price t)) of
        None \<Rightarrow> 0
      | Some p \<Rightarrow> p)"

text \<open>The handler. \<open>today\<close> is what \<^verbatim>\<open>datetime.now()\<close> reads during the request.\<close>

definition book_tour ::
  "date \<Rightarrow> app_state \<Rightarrow> session \<Rightarrow> int \<Rightarrow> book_form \<Rightarrow> app_state \<times> session \<times> response" where
  "book_tour today st sess tour_id form =
     (case tour_get_by_id (tours st) tour_id of
        None \<Rightarrow> (st, sess, Render404)
      | Some tour \<Rightarrow>
          (case form_passengers form of
             None \<Rightarrow> (st, flash PassengersNotANumber ''error'' sess, Redirect (TourDetail tour_id))
           | Some passengers \<Rightarrow>
               if passengers < 1 \<or> passengers > 10
               then (st, flash PassengersOutOfRange ''error'' sess, Redirect (TourDetail tour_id))
               else
                 (case bf_travel_date form of
                    None \<Rightarrow> (st, flash TravelDateMissing ''error'' sess, Redirect (TourDetail tour_id))
                  | Some travel_date \<Rightarrow>
                      if travel_date = []
                      then (st, flash TravelDateMissing ''error'' sess, Redirect (TourDetail tour_id))
                      else
                        (case check_travel_date today travel_date of
                           DateInPast \<Rightarrow>
                             (st, flash TravelDateInPast ''error'' sess, Redirect (TourDetail tour_id))
                         | DateTooFar \<Rightarrow>
                             (st, flash TravelDateTooFar ''error'' sess, Redirect (TourDetail tour_id))
                         | DateValueError \<Rightarrow>
                             (st, flash TravelDateBadFormat ''error'' sess, Redirect (TourDetail tour_id))
                         | DateOk \<Rightarrow>
                             (case logged_in sess of
                                None \<Rightarrow>
                                  (st,
                                   flash RegisterToFinishBooking ''info''
                                     (sess\<lparr>s_booking_data :=
                                        Some \<lparr>bd_tour_id = tour_id, bd_travel_date = travel_date,
                                              bd_passengers = passengers\<rparr>\<rparr>),
                                   Redirect Register)
                              | Some user_id \<Rightarrow>
                               (let total_price = unit_price tour * real_of_int passengers;
                                    (booking_id, st1) = booking_get_next_id st;
                                    booking = \<lparr>b_id = booking_id, b_tour_id = tour_id,
                                               b_user_id = user_id,
                                               b_booking_date = strftime_date today,
                                               b_travel_date = travel_date,
                                               b_passengers = passengers,
                                               b_total_price = total_price,
                                               b_status = ''confirmed''\<rparr>;
                                    st2 = add_booking booking st1
                                in (st2, sess,
                                    RenderBooking tour booking (user_get_by_id (users st2) user_id)
                                      passengers)))))))"

subsection \<open>POST /register\<close>

record register_form =
  rf_email :: "string option"
  rf_password :: "string option"
  rf_confirm_password :: "string option"
  rf_first_name :: "string option"
  rf_last_name :: "string option"
  rf_phone :: "string option"

text \<open>
  The part of \<^verbatim>\<open>register_post\<close> after the new user was stored (auth.py, lines 80 to 139).
  The deferred booking computes \<^verbatim>\<open>total_price = tour.price * booking_data["passengers"]\<close>,
  which raises \<^verbatim>\<open>TypeError\<close> on an absent price. When the tour is not found the function
  falls out of the \<^verbatim>\<open>if booking_data:\<close> block to the final flash and redirect.
\<close>

definition complete_pending_booking ::
  "date \<Rightarrow> user \<Rightarrow> app_state \<Rightarrow> session \<Rightarrow> app_state \<times> session \<times> response" where
  "complete_pending_booking today usr st sess =
     (case s_booking_data sess of
        None \<Rightarrow> (st, flash RegisteredNowLogIn ''success'' sess, Redirect Login)
      | Some bd \<Rightarrow>
          (case check_travel_date today (bd_travel_date bd) of
             DateInPast \<Rightarrow>
               (st, flash TravelDateInPast ''error'' (sess\<lparr>s_booking_data := None\<rparr>), Redirect Home)
           | DateTooFar \<Rightarrow>
               (st, flash TravelDateTooFar ''error'' (sess\<lparr>s_booking_data := None\<rparr>), Redirect Home)
           | DateValueError \<Rightarrow>
               (st, flash BookingDataInvalid ''error'' (sess\<lparr>s_booking_data := None\<rparr>),
                Redirect Home)
           | DateOk \<Rightarrow>
               (let sess1 = sess\<lparr>s_user_id := Some (u_id usr), s_email := u_email usr,
                                 s_role := Some (u_role usr)\<rparr>
                in case tour_get_by_id (tours st) (bd_tour_id bd) of
                     None \<Rightarrow> (st, flash RegisteredNowLogIn ''success'' sess1, Redirect Login)
                   | Some tour \<Rightarrow>
                       (let (booking_id, st1) = booking_get_next_id st
                        in case t_price tour of
                             None \<Rightarrow> (st1, sess1, InternalServerError TypeError)
                           | Some price \<Rightarrow>
                               (let total_price = price * real_of_int (bd_passengers bd);
                                    booking = \<lparr>b_id = booking_id, b_tour_id = bd_tour_id bd,
                                               b_user_id = u_id usr,
                                               b_booking_date = strftime_date today,
                                               b_travel_date = bd_travel_date bd,
                                               b_passengers = bd_passengers bd,
                                               b_total_price = total_price,
                                               b_status = ''confirmed''\<rparr>;
                                    st2 = add_booking booking st1
                                in (st2,
                                    flash RegisteredAndBooked ''success''
                                      (sess1\<lparr>s_booking_data := None\<rparr>),
                                    Redirect (BookingConfirmation booking_id)))))))"

text \<open>
  The whole handler. \<open>hash\<close> stands for \<^verbatim>\<open>generate_password_hash\<close>. The form fields
  come from \<^verbatim>\<open>request.form.get\<close> and may be absent; \<^verbatim>\<open>len(password)\<close> on an absent
  password (both fields missing, so that they compare equal) raises \<^verbatim>\<open>TypeError\<close>.
\<close>

definition register_post ::
  "date \<Rightarrow> (string \<Rightarrow> string) \<Rightarrow> app_state \<Rightarrow> session \<Rightarrow> register_form
     \<Rightarrow> app_state \<times> session \<times> response" where
  "register_post today hash st sess form =
     (if rf_password form \<noteq> rf_confirm_password form
      then (st, flash PasswordsDiffer ''error'' sess, Redirect Register)
      else
        (case rf_password form of
           None \<Rightarrow> (st, sess, InternalServerError TypeError)
         | Some password \<Rightarrow>
             if length password < 6
             then (st, flash PasswordTooShort ''error'' sess, Redirect Register)
             else if get_by_email (users st) (rf_email form) \<noteq> None
             then (st, flash EmailTaken ''error'' sess, Redirect Register)
             else
               (let (new_id, st1) = user_get_next_id st;
                    usr = \<lparr>u_id = new_id, u_email = rf_email form,
                           u_password_hash = hash password, u_role = ''client'',
                           u_first_name = rf_first_name form, u_last_name = rf_last_name form,
                           u_phone = rf_phone form\<rparr>;
                    st2 = add_user usr st1
                in complete_pending_booking today usr st2 sess)))"

subsection \<open>POST /booking/<booking_id>/cancel\<close>

text \<open>
  \<^verbatim>\<open>min_cancel_date = today.replace(day=today.day + 3) if today.day <= 28
                    else today.replace(month=today.month + 1, day=3)\<close>
  Both \<^verbatim>\<open>replace\<close> calls raise \<^verbatim>\<open>ValueError\<close> when the new triple is no calendar date;
  they stand inside the \<^verbatim>\<open>try\<close> whose handler flashes the travel-date error.
\<close>

definition min_cancel_date :: "date \<Rightarrow> date option" where
  "min_cancel_date today =
     (if day today \<le> 28 then replace_day today (day today + 3)
      else replace_month_day today (month today + 1) 3)"

definition cancel_booking ::
  "date \<Rightarrow> app_state \<Rightarrow> session \<Rightarrow> int \<Rightarrow> app_state \<times> session \<times> response" where
  "cancel_booking today st sess booking_id =
     (case logged_in sess of
        None \<Rightarrow> (st, flash LoginToCancel ''warning'' sess, Redirect Login)
      | Some uid \<Rightarrow>
          (case booking_get_by_id (bookings st) booking_id of
             None \<Rightarrow> (st, flash BookingNotFound ''error'' sess, Redirect MyBookings)
           | Some booking \<Rightarrow>
               if b_user_id booking \<noteq> uid
               then (st, flash NotYourBooking ''error'' sess, Redirect MyBookings)
               else
                 (case strptime (b_travel_date booking) of
                    None \<Rightarrow> (st, flash TravelDateError ''error'' sess, Redirect MyBookings)
                  | Some travel_date_obj \<Rightarrow>
                      (case min_cancel_date today of
                         None \<Rightarrow> (st, flash TravelDateError ''error'' sess, Redirect MyBookings)
                       | Some min_date \<Rightarrow>
                           if date_le travel_date_obj min_date
                           then (st, flash TooLateToCancel ''error'' sess, Redirect MyBookings)
                           else
                             (let (ok, bs) = repo_cancel_booking (bookings st) booking_id
                              in (st\<lparr>bookings := bs\<rparr>,
                                  (if ok then flash BookingCancelled ''success'' sess
                                   else flash CancelFailed ''error'' sess),
                                  Redirect MyBookings))))))"

section \<open>Tour catalog (repository/tours_repo.py)\<close>

text \<open>
  An event is the dictionary the event source returns; a key that is missing or holds
  \<^verbatim>\<open>None\<close> is \<open>None\<close>. The four keys that \<^verbatim>\<open>_map_events\<close> reads with a default
  (\<^verbatim>\<open>name\<close>, \<^verbatim>\<open>city\<close>, \<^verbatim>\<open>country\<close>, \<^verbatim>\<open>classification\<close>) are taken to hold a string
  when they are present, as the declared type of the \<^verbatim>\<open>Tour\<close> fields asks; a key present
  with \<^verbatim>\<open>None\<close> would reach the tour as \<^verbatim>\<open>None\<close> in the code and is the default here.
\<close>

record event =
  e_id :: "string option"
  e_name :: "string option"
  e_city :: "string option"
  e_country :: "string option"
  e_address :: "string option"
  e_venue :: "string option"
  e_timezone :: "string option"
  e_image :: "string option"
  e_photo_url :: "string option"
  e_price_min :: "real option"
  e_price_max :: "real option"
  e_currency :: "string option"
  e_classification :: "string option"
  e_genres :: "string list option"
  e_start_date :: "string option"
  e_end_date :: "string option"
  e_start_time :: "string option"
  e_url :: "string option"
  e_lat :: "string option"
  e_lng :: "string option"
  e_duration_days :: "int option"

text \<open>Python's \<^verbatim>\<open>a or b\<close> on optional numbers and strings: \<open>a\<close> unless it is \<^verbatim>\<open>None\<close>,
  zero or empty.\<close>

definition or_real :: "real option \<Rightarrow> real option \<Rightarrow> real option" where
  "or_real a b = (case a of None \<Rightarrow> b | Some x \<Rightarrow> if x = 0 then b else Some x)"

definition or_str :: "string option \<Rightarrow> string option \<Rightarrow> string option" where
  "or_str a b = (case a of None \<Rightarrow> b | Some x \<Rightarrow> if x = [] then b else Some x)"

definition DEFAULT_PHOTO :: string where
  "DEFAULT_PHOTO =
     ''https://images.unsplash.com/photo-1470229538611-16ba8c7ffbd7?q=80&w=1600&auto=format&fit=crop''"

definition MIN_LEAD_DAYS :: nat where
  "MIN_LEAD_DAYS = 30"

text \<open>
  One step of the loop of \<^verbatim>\<open>_map_events\<close>. The description text comes from
  \<^verbatim>\<open>_compose_description\<close>, which formats floats into a paragraph; no claim reads the
  text, so the composer is the parameter \<open>compose\<close>.
\<close>

definition map_event :: "(event \<Rightarrow> string) \<Rightarrow> int \<Rightarrow> event \<Rightarrow> tour" where
  "map_event compose idx ev =
     \<lparr>t_id = idx,
      t_title = (case e_name ev of None \<Rightarrow> ''Live Experience'' | Some n \<Rightarrow> n),
      t_description = compose ev,
      t_price = Some (case or_real (e_price_min ev) (e_price_max ev) of None \<Rightarrow> 0 | Some p \<Rightarrow> p),
      t_city = (case e_city ev of None \<Rightarrow> [] | Some c \<Rightarrow> c),
      t_country = (case e_country ev of None \<Rightarrow> [] | Some c \<Rightarrow> c),
      t_type = (case e_classification ev of None \<Rightarrow> ''experience'' | Some c \<Rightarrow> c),
      t_duration_days = (case e_duration_days ev of None \<Rightarrow> 1 | Some n \<Rightarrow> if n = 0 then 1 else n),
      t_photo_url = or_str (or_str (e_image ev) (e_photo_url ev)) (Some DEFAULT_PHOTO),
      t_venue = e_venue ev,
      t_address = e_address ev,
      t_timezone = e_timezone ev,
      t_start_date = e_start_date ev,
      t_end_date = e_end_date ev,
      t_start_time = e_start_time ev,
      t_ticket_url = e_url ev,
      t_currency = e_currency ev,
      t_min_price = e_price_min ev,
      t_max_price = e_price_max ev,
      t_external_id = e_id ev,
      t_lat = e_lat ev,
      t_lng = e_lng ev,
      t_categories = (case e_genres ev of None \<Rightarrow> [] | Some g \<Rightarrow> g)\<rparr>"

text \<open>\<^verbatim>\<open>for idx, event in enumerate(events, start=1)\<close>: \<open>map_events_from\<close> carries the
  running index.\<close>

fun map_events_from :: "(event \<Rightarrow> string) \<Rightarrow> int \<Rightarrow> event list \<Rightarrow> tour list" where
  "map_events_from compose idx [] = []"
| "map_events_from compose idx (ev # evs) =
     map_event compose idx ev # map_events_from compose (idx + 1) evs"

definition map_events :: "(event \<Rightarrow> string) \<Rightarrow> event list \<Rightarrow> tour list" where
  "map_events compose events = map_events_from compose 1 events"

text \<open>
  The loop of \<^verbatim>\<open>_filter_future_ready\<close>, with the list \<^verbatim>\<open>filtered\<close> as accumulator:
  a tour without a start date (\<^verbatim>\<open>None\<close> or empty) is appended, one whose start date does
  not parse is appended, one that parses is appended when \<^verbatim>\<open>start_date >= threshold\<close>.
\<close>

fun filter_loop :: "date \<Rightarrow> tour list \<Rightarrow> tour list \<Rightarrow> tour list" where
  "filter_loop threshold filtered [] = filtered"
| "filter_loop threshold filtered (t # ts) =
     (case t_start_date t of
        None \<Rightarrow> filter_loop threshold (filtered @ [t]) ts
      | Some s \<Rightarrow>
          if s = [] then filter_loop threshold (filtered @ [t]) ts
          else (case strptime s of
                  None \<Rightarrow> filter_loop threshold (filtered @ [t]) ts
                | Some start_date \<Rightarrow>
                    if date_le threshold start_date
                    then filter_loop threshold (filtered @ [t]) ts
                    else filter_loop threshold filtered ts))"

text \<open>\<open>utc_today\<close> is \<^verbatim>\<open>datetime.utcnow().date()\<close>. The sum \<^verbatim>\<open>+ timedelta(days=30)\<close> is
  outside any \<^verbatim>\<open>try\<close>, so its \<^verbatim>\<open>OverflowError\<close> leaves the function.\<close>

definition filter_future_ready :: "date \<Rightarrow> tour list \<Rightarrow> py_error + tour list" where
  "filter_future_ready utc_today ts =
     (if ts = [] then Inr ts
      else (case date_add_days utc_today MIN_LEAD_DAYS of
              None \<Rightarrow> Inl OverflowError
            | Some threshold \<Rightarrow>
                (let filtered = filter_loop threshold [] ts
                 in Inr (if filtered = [] then ts else filtered))))"

text \<open>
  \<^verbatim>\<open>sync_events\<close>: \<open>fetch_events\<close> is the event source, called with city, keyword and
  classification id. A non-empty answer replaces the catalog.
\<close>

definition sync_events ::
  "date \<Rightarrow> (event \<Rightarrow> string) \<Rightarrow> (string option \<Rightarrow> string option \<Rightarrow> string option \<Rightarrow> event list)
     \<Rightarrow> string option \<Rightarrow> string option \<Rightarrow> string option \<Rightarrow> app_state \<Rightarrow> py_error + app_state" where
  "sync_events utc_today compose fetch_events city keyword classification_id st =
     (let events = fetch_events city keyword classification_id
      in if events = [] then Inr st
         else (case filter_future_ready utc_today (map_events compose events) of
                 Inl e \<Rightarrow> Inl e
               | Inr ts \<Rightarrow> Inr (st\<lparr>tours := ts\<rparr>)))"

text \<open>\<^verbatim>\<open>(t.price or 0)\<close>.\<close>

definition price_or_0 :: "tour \<Rightarrow> real" where
  "price_or_0 t = (case t_price t of None \<Rightarrow> 0 | Some p \<Rightarrow> p)"

text \<open>The in-memory filters of \<^verbatim>\<open>search\<close>, each applied when its parameter is given.\<close>

definition search_filters ::
  "string \<Rightarrow> string \<Rightarrow> real option \<Rightarrow> real option \<Rightarrow> int option \<Rightarrow> string \<Rightarrow> tour list \<Rightarrow> tour list" where
  "search_filters location type min_price max_price duration keyword q0 =
     (let q1 = (if location \<noteq> []
                then filter (\<lambda>t. py_in (py_lower location) (py_lower (t_city t)) \<or>
                                 py_in (py_lower location) (py_lower (t_country t))) q0
                else q0);
          q2 = (if type \<noteq> [] then filter (\<lambda>t. py_lower (t_type t) = py_lower type) q1 else q1);
          q3 = (case min_price of None \<Rightarrow> q2
                | Some lo \<Rightarrow> filter (\<lambda>t. price_or_0 t \<ge> lo) q2);
          q4 = (case max_price of None \<Rightarrow> q3
                | Some hi \<Rightarrow> filter (\<lambda>t. price_or_0 t \<le> hi) q3);
          q5 = (case duration of None \<Rightarrow> q4
                | Some n \<Rightarrow> filter (\<lambda>t. t_duration_days t = n) q4)
      in if keyword \<noteq> []
         then filter (\<lambda>t. py_in (py_lower keyword) (py_lower (t_title t)) \<or>
                          py_in (py_lower keyword) (py_lower (t_description t))) q5
         else q5)"

definition search ::
  "date \<Rightarrow> (event \<Rightarrow> string) \<Rightarrow> (string option \<Rightarrow> string option \<Rightarrow> string option \<Rightarrow> event list)
     \<Rightarrow> app_state \<Rightarrow> string \<Rightarrow> string \<Rightarrow> real option \<Rightarrow> real option \<Rightarrow> int option \<Rightarrow> string
     \<Rightarrow> py_error + (app_state \<times> tour list)" where
  "search utc_today compose fetch_events st location type min_price max_price duration keyword =
     (let city_param = (if location = [] then None else Some location);
          keyword_param = (if keyword = [] then None else Some keyword)
      in case sync_events utc_today compose fetch_events city_param keyword_param None st of
           Inl e \<Rightarrow> Inl e
         | Inr st' \<Rightarrow>
             Inr (st', search_filters location type min_price max_price duration keyword (tours st')))"

section \<open>Feedback (repository/feedback_repo.py, blueprints/public.py, blueprints/admin.py)\<close>

text \<open>\<^verbatim>\<open>datetime.now().strftime("%Y-%m-%d %H:%M:%S")\<close> on the clock reading \<open>now\<close>.\<close>

record datetime =
  dt_date :: date
  hour :: nat
  minute :: nat
  second :: nat

definition strftime_datetime :: "datetime \<Rightarrow> string" where
  "strftime_datetime now =
     strftime_date (dt_date now) @ '' '' @ dec2 (hour now) @ '':'' @ dec2 (minute now) @ '':'' @
     dec2 (second now)"

definition feedback_get_next_id :: "app_state \<Rightarrow> int \<times> app_state" where
  "feedback_get_next_id st =
     (feedback_next_id st, st\<lparr>feedback_next_id := feedback_next_id st + 1\<rparr>)"

definition add_feedback :: "feedback \<Rightarrow> app_state \<Rightarrow> app_state" where
  "add_feedback f st = st\<lparr>feedbacks := feedbacks st @ [f]\<rparr>"

fun feedback_get_by_id :: "feedback list \<Rightarrow> int \<Rightarrow> feedback option" where
  "feedback_get_by_id [] i = None"
| "feedback_get_by_id (f # fs) i = (if f_id f = i then Some f else feedback_get_by_id fs i)"

text \<open>\<^verbatim>\<open>FeedbackRepository.respond_to_feedback\<close>: the first record with the id gets the
  response, the admin id, the time stamp and the status \<^verbatim>\<open>resolved\<close>, and the loop
  returns \<^verbatim>\<open>True\<close>; \<^verbatim>\<open>False\<close> when no record has the id.\<close>

fun respond_to_feedback ::
  "datetime \<Rightarrow> feedback list \<Rightarrow> int \<Rightarrow> string \<Rightarrow> int \<Rightarrow> bool \<times> feedback list" where
  "respond_to_feedback now [] feedback_id admin_response admin_id = (False, [])"
| "respond_to_feedback now (f # fs) feedback_id admin_response admin_id =
     (if f_id f = feedback_id
      then (True,
            f\<lparr>f_admin_response := Some admin_response, f_admin_id := Some admin_id,
              f_responded_at := Some (strftime_datetime now), f_status := ''resolved''\<rparr> # fs)
      else (let (ok, fs') = respond_to_feedback now fs feedback_id admin_response admin_id
            in (ok, f # fs')))"

subsection \<open>POST /feedback\<close>

record feedback_form =
  ff_subject :: "string option"
  ff_message :: "string option"
  ff_category :: "string option"
  ff_priority :: "string option"

text \<open>\<^verbatim>\<open>request.form.get(key, default)\<close>.\<close>

definition form_get :: "string option \<Rightarrow> string \<Rightarrow> string" where
  "form_get v dflt = (case v of None \<Rightarrow> dflt | Some x \<Rightarrow> x)"

definition submit_feedback ::
  "datetime \<Rightarrow> app_state \<Rightarrow> session \<Rightarrow> feedback_form \<Rightarrow> app_state \<times> session \<times> response" where
  "submit_feedback now st sess form =
     (case logged_in sess of
        None \<Rightarrow> (st, flash LoginForFeedback ''warning'' sess, Redirect Login)
      | Some user_id \<Rightarrow>
          (let subject = py_strip (form_get (ff_subject form) []);
               message = py_strip (form_get (ff_message form) []);
               category = form_get (ff_category form) ''general'';
               priority = form_get (ff_priority form) ''normal''
           in if subject = [] then (st, flash SubjectMissing ''error'' sess, Redirect FeedbackForm)
              else if message = [] then (st, flash MessageMissing ''error'' sess, Redirect FeedbackForm)
              else if length subject > 200
              then (st, flash SubjectTooLong ''error'' sess, Redirect FeedbackForm)
              else if length message > 2000
              then (st, flash MessageTooLong ''error'' sess, Redirect FeedbackForm)
              else
                (let (feedback_id, st1) = feedback_get_next_id st;
                     fb = \<lparr>f_id = feedback_id, f_user_id = user_id, f_subject = subject,
                           f_message = message, f_created_at = strftime_datetime now,
                           f_status = ''new'', f_admin_response = None, f_admin_id = None,
                           f_responded_at = None, f_priority = priority, f_category = category\<rparr>
                 in (add_feedback fb st1, flash FeedbackSent ''success'' sess, Redirect MyFeedback))))"

subsection \<open>What the rest of the code takes a priority to be\<close>

text \<open>
  models.py documents the field as \<^verbatim>\<open>'low', 'normal', 'high', 'urgent'\<close>; the admin route
  \<^verbatim>\<open>change_feedback_priority\<close> accepts a new priority only from that list; and the
  admin list page sorts by
  \<^verbatim>\<open>{'urgent': 0, 'high': 1, 'normal': 2, 'low': 3}[x.priority]\<close>, a dictionary lookup that
  raises \<^verbatim>\<open>KeyError\<close> on any other priority.
\<close>

definition valid_priorities :: "string list" where
  "valid_priorities = [''low'', ''normal'', ''high'', ''urgent'']"

definition priority_rank :: "string \<Rightarrow> py_error + nat" where
  "priority_rank p =
     (if p = ''urgent'' then Inr 0 else if p = ''high'' then Inr 1
      else if p = ''normal'' then Inr 2 else if p = ''low'' then Inr 3 else Inl KeyError)"

text \<open>The sort keys of \<^verbatim>\<open>feedback_management\<close>; the sort raises as soon as one key does.\<close>

fun feedback_sort_keys :: "feedback list \<Rightarrow> py_error + (nat \<times> string) list" where
  "feedback_sort_keys [] = Inr []"
| "feedback_sort_keys (f # fs) =
     (case priority_rank (f_priority f) of
        Inl e \<Rightarrow> Inl e
      | Inr r \<Rightarrow> (case feedback_sort_keys fs of
                    Inl e \<Rightarrow> Inl e
                  | Inr ks \<Rightarrow> Inr ((r, f_created_at f) # ks)))"

section \<open>What the specification says, as definitions\<close>

text \<open>
  Two notions are stated in the specification's own words, to be compared with the code:
  the unit price of a booking (min_price if present, else max_price if present, else
  price, else 0) and the tours the future-readiness filter drops (those whose start date
  parses and is earlier than the threshold).
\<close>

definition claimed_unit_price :: "tour \<Rightarrow> real" where
  "claimed_unit_price t =
     (case t_min_price t of
        Some p \<Rightarrow> p
      | None \<Rightarrow> (case t_max_price t of
                  Some p \<Rightarrow> p
                | None \<Rightarrow> (case t_price t of Some p \<Rightarrow> p | None \<Rightarrow> 0)))"

definition starts_too_soon :: "date \<Rightarrow> tour \<Rightarrow> bool" where
  "starts_too_soon threshold t =
     (case t_start_date t of
        None \<Rightarrow> False
      | Some s \<Rightarrow> (case strptime s of None \<Rightarrow> False | Some d \<Rightarrow> date_less d threshold))"

text \<open>The \<^verbatim>\<open>User\<close> object that \<^verbatim>\<open>register_post\<close> builds and stores, for a form whose password
  is \<open>password\<close>.\<close>

definition registered_user :: "(string \<Rightarrow> string) \<Rightarrow> app_state \<Rightarrow> register_form \<Rightarrow> string \<Rightarrow> user" where
  "registered_user hash st form password =
     \<lparr>u_id = user_next_id st, u_email = rf_email form, u_password_hash = hash password,
      u_role = ''client'', u_first_name = rf_first_name form, u_last_name = rf_last_name form,
      u_phone = rf_phone form\<rparr>"

section \<open>Sample data\<close>

text \<open>A catalog entry shaped like the first record of the fallback data set, the seeded
  administrator, a registered client and sessions; the examples below run the handlers on
  them.\<close>

definition plain_compose :: "event \<Rightarrow> string" where
  "plain_compose ev = (case e_name ev of None \<Rightarrow> [] | Some n \<Rightarrow> n)"

definition sample_hash :: "string \<Rightarrow> string" where
  "sample_hash pw = ''hash:'' @ pw"

definition altai_event :: event where
  "altai_event =
     \<lparr>e_id = Some ''ALTAI2026BEL'', e_name = Some ''Altai'', e_city = Some ''Gorno-Altaysk'',
      e_country = Some ''Russia'', e_address = Some ''Tyungur'', e_venue = Some ''Camp'',
      e_timezone = Some ''Asia/Barnaul'', e_image = Some ''https://images.example/altai.jpg'',
      e_photo_url = None, e_price_min = Some 1190, e_price_max = Some 1490,
      e_currency = Some ''USD'', e_classification = Some ''mountain'',
      e_genres = Some [''Mountain'', ''Tracking'', ''Russia''],
      e_start_date = Some ''2026-06-14'', e_end_date = Some ''2026-06-24'',
      e_start_time = Some ''08:30'', e_url = Some ''https://mikola-travel.example/altai-belukha'',
      e_lat = Some ''50.1067'', e_lng = Some ''86.9953'', e_duration_days = Some 11\<rparr>"

definition altai_tour :: tour where
  "altai_tour = map_event plain_compose 1 altai_event"

definition admin_user :: user where
  "admin_user =
     \<lparr>u_id = 1, u_email = Some ''admin@mikola.com'', u_password_hash = sample_hash ''admin123'',
      u_role = ''admin'', u_first_name = Some ''Admin'', u_last_name = Some ''User'',
      u_phone = None\<rparr>"

definition client_user :: user where
  "client_user =
     \<lparr>u_id = 2, u_email = Some ''client@example.com'',
      u_password_hash = sample_hash ''secret99'', u_role = ''client'',
      u_first_name = Some ''Test'', u_last_name = Some ''User'', u_phone = None\<rparr>"

definition sample_state :: app_state where
  "sample_state =
     \<lparr>tours = [altai_tour], bookings = [], booking_next_id = 1,
      users = [admin_user, client_user], user_next_id = 3, feedbacks = [],
      feedback_next_id = 1\<rparr>"

definition anonymous_session :: session where
  "anonymous_session =
     \<lparr>s_user_id = None, s_email = None, s_role = None, s_booking_data = None, s_flashes = []\<rparr>"

definition client_session :: session where
  "client_session =
     \<lparr>s_user_id = Some 2, s_email = Some ''client@example.com'', s_role = Some ''client'',
      s_booking_data = None, s_flashes = []\<rparr>"

definition sample_today :: date where
  "sample_today = \<lparr>year = 2026, month = 2, day = 10\<rparr>"

definition leap_span_today :: date where
  "leap_span_today = \<lparr>year = 2023, month = 3, day = 2\<rparr>"

definition pending_session :: session where
  "pending_session =
     \<lparr>s_user_id = None, s_email = None, s_role = None,
      s_booking_data = Some \<lparr>bd_tour_id = 1, bd_travel_date = ''2026-06-14'', bd_passengers = 2\<rparr>,
      s_flashes = []\<rparr>"

definition new_client_form :: register_form where
  "new_client_form =
     \<lparr>rf_email = Some ''flowtest@example.com'', rf_password = Some ''password123'',
      rf_confirm_password = Some ''password123'', rf_first_name = Some ''Flow'',
      rf_last_name = Some ''Test'', rf_phone = None\<rparr>"

definition free_entry_event :: event where
  "free_entry_event = altai_event\<lparr>e_id := Some ''OPENAIR'', e_name := Some ''Open Air'',
     e_price_min := Some 0, e_price_max := Some 50\<rparr>"

definition free_entry_tour :: tour where
  "free_entry_tour = map_event plain_compose 1 free_entry_event"

definition free_entry_state :: app_state where
  "free_entry_state = sample_state\<lparr>tours := [free_entry_tour]\<rparr>"

definition free_entry_source :: "string option \<Rightarrow> string option \<Rightarrow> string option \<Rightarrow> event list" where
  "free_entry_source city keyword classification_id = [free_entry_event]"

definition december_30 :: date where
  "december_30 = \<lparr>year = 2026, month = 12, day = 30\<rparr>"

definition february_27 :: date where
  "february_27 = \<lparr>year = 2027, month = 2, day = 27\<rparr>"

definition summer_booking :: booking where
  "summer_booking =
     \<lparr>b_id = 1, b_tour_id = 1, b_user_id = 2, b_booking_date = ''2026-11-20'',
      b_travel_date = ''2027-06-14'', b_passengers = 2, b_total_price = 2380,
      b_status = ''confirmed''\<rparr>"

definition booked_state :: app_state where
  "booked_state = sample_state\<lparr>bookings := [summer_booking], booking_next_id := 2\<rparr>"

definition altai_source :: "string option \<Rightarrow> string option \<Rightarrow> string option \<Rightarrow> event list" where
  "altai_source city keyword classification_id = [altai_event]"

definition june_2 :: date where
  "june_2 = \<lparr>year = 2026, month = 6, day = 2\<rparr>"

definition unpriced_tour :: tour where
  "unpriced_tour = altai_tour\<lparr>t_price := None\<rparr>"

definition sample_now :: datetime where
  "sample_now = \<lparr>dt_date = sample_today, hour = 14, minute = 5, second = 9\<rparr>"

definition closed_feedback :: feedback where
  "closed_feedback =
     \<lparr>f_id = 3, f_user_id = 2, f_subject = ''Refund'', f_message = ''Where is my refund?'',
      f_created_at = ''2026-02-03 09:15:00'', f_status = ''closed'', f_admin_response = None,
      f_admin_id = None, f_responded_at = None, f_priority = ''high'', f_category = ''booking''\<rparr>"

definition bogus_priority_form :: feedback_form where
  "bogus_priority_form =
     \<lparr>ff_subject = Some ''Test Subject'', ff_message = Some ''Test message content'',
      ff_category = Some ''general'', ff_priority = Some ''bogus''\<rparr>"

definition stale_session :: session where
  "stale_session =
     \<lparr>s_user_id = None, s_email = None, s_role = None,
      s_booking_data = Some \<lparr>bd_tour_id = 99, bd_travel_date = ''2026-06-14'', bd_passengers = 2\<rparr>,
      s_flashes = []\<rparr>"

definition stale_expired_session :: session where
  "stale_expired_session =
     \<lparr>s_user_id = None, s_email = None, s_role = None,
      s_booking_data = Some \<lparr>bd_tour_id = 99, bd_travel_date = ''2026-02-03'', bd_passengers = 2\<rparr>,
      s_flashes = []\<rparr>"

section \<open>Evaluation rules\<close>

lemmas str_defs = py_int_def int_strip_def is_int_space_def int_digits_def MAX_STR_DIGITS_def
  is_digit_def digit_val_def
lemmas date_defs = strptime_def parse_year_def parse_month_def parse_day_def mk_date_def
  date_valid_def days_in_month_def is_leap_def is_digit_def digit_val_def replace_year_def
  date_less_def date_le_def check_travel_date_def

lemma py_int_examples:
  "py_int ''2'' = Some 2" "py_int ''0'' = Some 0" "py_int ''11'' = Some 11" "py_int ''abc'' = None"
  "py_int ''2.5'' = None" "py_int [] = None"
  by (simp_all add: str_defs)

text \<open>What \<^verbatim>\<open>int\<close> refuses beyond plain text: the separators that only \<^verbatim>\<open>strip()\<close> takes
  for whitespace, misplaced underscores, a sign set apart, and numerals of more than 4300
  digits.\<close>

lemma py_int_separators:
  "py_int [CHR 0x1C, CHR ''5''] = None" "py_int [CHR ''5'', CHR 0x1F] = None"
  "py_int [CHR 0xA0, CHR ''5'', CHR 0x85] = Some 5" "py_int '' +5 '' = Some 5"
  "py_int ''5_0'' = Some 50" "py_int ''5__0'' = None" "py_int ''+ 5'' = None"
  "py_strip [CHR 0x1C, CHR ''5''] = ''5''"
  by (simp_all add: str_defs py_strip_def is_space_def)

lemma filter_dropWhile_disjoint:
  "(\<And>x. P x \<Longrightarrow> \<not> Q x) \<Longrightarrow> filter Q (dropWhile P xs) = filter Q xs"
  by (induction xs) auto

lemma int_space_not_digit: "is_int_space c \<Longrightarrow> \<not> is_digit c"
  by (auto simp: is_int_space_def is_digit_def Let_def)

lemma digits_of_int_strip: "filter is_digit (int_strip s) = filter is_digit s"
proof -
  have d: "filter is_digit (dropWhile is_int_space xs) = filter is_digit xs" for xs
    by (rule filter_dropWhile_disjoint[OF int_space_not_digit])
  have r: "filter is_digit (rev xs) = rev (filter is_digit xs)" for xs
    by (simp add: rev_filter)
  have "filter is_digit (int_strip s) =
          rev (filter is_digit (dropWhile is_int_space (rev (dropWhile is_int_space s))))"
    unfolding int_strip_def by (rule r)
  also have "\<dots> = rev (filter is_digit (rev (dropWhile is_int_space s)))"
    by (simp only: d)
  also have "\<dots> = filter is_digit (dropWhile is_int_space s)"
    by (simp only: r rev_rev_ident)
  also have "\<dots> = filter is_digit s"
    by (rule d)
  finally show ?thesis .
qed

lemma py_int_digit_limit:
  assumes "MAX_STR_DIGITS < length (filter is_digit s)"
  shows "py_int s = None"
proof (cases "int_strip s")
  case Nil
  then show ?thesis by (simp add: py_int_def)
next
  case (Cons c cs)
  have n: "MAX_STR_DIGITS < length (filter is_digit (c # cs))"
    using assms digits_of_int_strip[of s] Cons by simp
  have sign: "\<not> is_digit (CHR ''-'')" "\<not> is_digit (CHR ''+'')"
    by (simp_all add: is_digit_def)
  show ?thesis
    using n sign by (auto simp: py_int_def Cons int_digits_def)
qed

lemma long_numeral: "py_int (replicate 4300 (CHR ''0'') @ ''1'') = None"
proof -
  have "filter is_digit (replicate 4300 (CHR ''0'') @ ''1'') = replicate 4300 (CHR ''0'') @ ''1''"
    by (rule filter_True) (auto simp: is_digit_def)
  then show ?thesis
    by (intro py_int_digit_limit) (simp add: MAX_STR_DIGITS_def)
qed

lemma altai_tour_id: "t_id altai_tour = 1"
  by (simp add: altai_tour_def map_event_def)

lemma sample_state_sel:
  "bookings sample_state = []" "booking_next_id sample_state = 1"
  "users sample_state = [admin_user, client_user]" "user_next_id sample_state = 3"
  "tours sample_state = [altai_tour]"
  by (simp_all add: sample_state_def)

lemma check_ok_example:
  "check_travel_date sample_today ''2026-06-14'' = DateOk"
  by (simp add: date_defs sample_today_def)

section \<open>When a booking is created\<close>

lemma book_tour_created:
  assumes "bookings (fst (book_tour today st sess tour_id form)) \<noteq> bookings st"
  shows "\<exists>tour passengers travel_date user_id.
           tour_get_by_id (tours st) tour_id = Some tour \<and>
           form_passengers form = Some passengers \<and> 1 \<le> passengers \<and> passengers \<le> 10 \<and>
           bf_travel_date form = Some travel_date \<and>
           check_travel_date today travel_date = DateOk \<and>
           logged_in sess = Some user_id \<and>
           bookings (fst (book_tour today st sess tour_id form)) =
             bookings st @
             [\<lparr>b_id = booking_next_id st, b_tour_id = tour_id, b_user_id = user_id,
               b_booking_date = strftime_date today, b_travel_date = travel_date,
               b_passengers = passengers,
               b_total_price = unit_price tour * real_of_int passengers,
               b_status = ''confirmed''\<rparr>]"
  using assms
  by (auto simp: book_tour_def Let_def booking_get_next_id_def add_booking_def
      split: option.splits if_splits date_check.splits)

lemma check_travel_date_ok:
  "check_travel_date today s = DateOk \<longleftrightarrow>
     (\<exists>d m. strptime s = Some d \<and> replace_year today (year today + 1) = Some m \<and>
            date_le today d \<and> date_le d m)"
  by (auto simp: check_travel_date_def date_le_def split: option.splits if_splits)

lemma complete_pending_created:
  assumes "bookings (fst (complete_pending_booking today usr st sess)) \<noteq> bookings st"
  shows "\<exists>bd tour price.
           s_booking_data sess = Some bd \<and>
           check_travel_date today (bd_travel_date bd) = DateOk \<and>
           tour_get_by_id (tours st) (bd_tour_id bd) = Some tour \<and>
           t_price tour = Some price \<and>
           bookings (fst (complete_pending_booking today usr st sess)) =
             bookings st @
             [\<lparr>b_id = booking_next_id st, b_tour_id = bd_tour_id bd, b_user_id = u_id usr,
               b_booking_date = strftime_date today, b_travel_date = bd_travel_date bd,
               b_passengers = bd_passengers bd,
               b_total_price = price * real_of_int (bd_passengers bd),
               b_status = ''confirmed''\<rparr>]"
  using assms
  by (auto simp: complete_pending_booking_def Let_def booking_get_next_id_def add_booking_def
      split: option.splits if_splits date_check.splits)

lemma register_post_created:
  assumes "bookings (fst (register_post today hash st sess form)) \<noteq> bookings st"
  shows "\<exists>bd tour price.
           s_booking_data sess = Some bd \<and>
           check_travel_date today (bd_travel_date bd) = DateOk \<and>
           tour_get_by_id (tours st) (bd_tour_id bd) = Some tour \<and>
           t_price tour = Some price \<and>
           bookings (fst (register_post today hash st sess form)) =
             bookings st @
             [\<lparr>b_id = booking_next_id st, b_tour_id = bd_tour_id bd, b_user_id = user_next_id st,
               b_booking_date = strftime_date today, b_travel_date = bd_travel_date bd,
               b_passengers = bd_passengers bd,
               b_total_price = price * real_of_int (bd_passengers bd),
               b_status = ''confirmed''\<rparr>]"
proof -
  let ?usr = "\<lparr>u_id = user_next_id st, u_email = rf_email form,
           u_password_hash = hash (the (rf_password form)), u_role = ''client'',
           u_first_name = rf_first_name form, u_last_name = rf_last_name form,
           u_phone = rf_phone form\<rparr>"
  let ?st2 = "add_user ?usr (snd (user_get_next_id st))"
  have same: "bookings ?st2 = bookings st" "tours ?st2 = tours st"
    "booking_next_id ?st2 = booking_next_id st"
    by (simp_all add: add_user_def user_get_next_id_def)
  have eq: "register_post today hash st sess form = complete_pending_booking today ?usr ?st2 sess"
    using assms
    by (auto simp: register_post_def Let_def user_get_next_id_def split: option.splits if_splits)
  from assms have "bookings (fst (complete_pending_booking today ?usr ?st2 sess)) \<noteq> bookings ?st2"
    by (simp add: eq same)
  from complete_pending_created[OF this] show ?thesis
    by (simp add: eq same)
qed

section \<open>Passenger count\<close>

text \<open>
  Claim C5. For a direct booking request at POST /book/{id} whose passenger field holds the
  text \<open>p\<close>: if the request creates a booking, then \<open>p\<close> parses as an integer between 1
  and 10; and if \<open>p\<close> does not parse, or parses to a number below 1 or above 10 (so for
  0, for 11 and for text that is no number), the application state is returned unchanged
  and no booking intent is put into the session. Parsing is \<open>py_int\<close>, that is
  \<^verbatim>\<open>int()\<close> with its own whitespace and its limit of 4300 digits.
\<close>

theorem book_tour_passengers:
  assumes "bf_passengers form = Some p"
  shows "(bookings (fst (book_tour today st sess tour_id form)) \<noteq> bookings st \<longrightarrow>
            (\<exists>n. py_int p = Some n \<and> 1 \<le> n \<and> n \<le> 10)) \<and>
         ((case py_int p of None \<Rightarrow> True | Some n \<Rightarrow> n < 1 \<or> 10 < n) \<longrightarrow>
            fst (book_tour today st sess tour_id form) = st \<and>
            s_booking_data (fst (snd (book_tour today st sess tour_id form))) = s_booking_data sess)"
proof (intro conjI impI)
  assume "bookings (fst (book_tour today st sess tour_id form)) \<noteq> bookings st"
  from book_tour_created[OF this] assms
  show "\<exists>n. py_int p = Some n \<and> 1 \<le> n \<and> n \<le> 10"
    by (auto simp: form_passengers_def)
next
  assume rej: "case py_int p of None \<Rightarrow> True | Some n \<Rightarrow> n < 1 \<or> 10 < n"
  with assms show "fst (book_tour today st sess tour_id form) = st"
    by (auto simp: book_tour_def form_passengers_def split: option.splits)
  from rej assms
  show "s_booking_data (fst (snd (book_tour today st sess tour_id form))) = s_booking_data sess"
    by (auto simp: book_tour_def form_passengers_def flash_def split: option.splits)
qed

lemma book_example:
  "bookings (fst (book_tour sample_today sample_state client_session 1
      \<lparr>bf_travel_date = Some ''2026-06-14'', bf_passengers = Some ''2''\<rparr>)) \<noteq> bookings sample_state"
  by (simp add: book_tour_def altai_tour_id form_passengers_def py_int_examples check_ok_example
      logged_in_def client_session_def Let_def booking_get_next_id_def add_booking_def
      sample_state_sel)

theorem book_tour_passengers_witness:
  "bookings (fst (book_tour sample_today sample_state client_session 1
      \<lparr>bf_travel_date = Some ''2026-06-14'', bf_passengers = Some ''2''\<rparr>)) \<noteq> bookings sample_state \<and>
   (\<exists>n. py_int ''2'' = Some n \<and> 1 \<le> n \<and> n \<le> 10) \<and>
   fst (book_tour sample_today sample_state client_session 1
      \<lparr>bf_travel_date = Some ''2026-06-14'', bf_passengers = Some ''0''\<rparr>) = sample_state \<and>
   fst (book_tour sample_today sample_state client_session 1
      \<lparr>bf_travel_date = Some ''2026-06-14'', bf_passengers = Some ''11''\<rparr>) = sample_state \<and>
   fst (book_tour sample_today sample_state client_session 1
      \<lparr>bf_travel_date = Some ''2026-06-14'', bf_passengers = Some ''abc''\<rparr>) = sample_state \<and>
   fst (book_tour sample_today sample_state client_session 1
      \<lparr>bf_travel_date = Some ''2026-06-14'', bf_passengers = Some [CHR 0x1C, CHR ''5'']\<rparr>) =
     sample_state \<and>
   fst (book_tour sample_today sample_state client_session 1
      \<lparr>bf_travel_date = Some ''2026-06-14'',
        bf_passengers = Some (replicate 4300 (CHR ''0'') @ ''1'')\<rparr>) = sample_state"
  using book_example
    book_tour_passengers[of "\<lparr>bf_travel_date = Some ''2026-06-14'', bf_passengers = Some ''2''\<rparr>"
      "''2''" sample_today sample_state client_session 1]
    book_tour_passengers[of "\<lparr>bf_travel_date = Some ''2026-06-14'', bf_passengers = Some ''0''\<rparr>"
      "''0''" sample_today sample_state client_session 1]
    book_tour_passengers[of "\<lparr>bf_travel_date = Some ''2026-06-14'', bf_passengers = Some ''11''\<rparr>"
      "''11''" sample_today sample_state client_session 1]
    book_tour_passengers[of "\<lparr>bf_travel_date = Some ''2026-06-14'', bf_passengers = Some ''abc''\<rparr>"
      "''abc''" sample_today sample_state client_session 1]
    book_tour_passengers[of
      "\<lparr>bf_travel_date = Some ''2026-06-14'', bf_passengers = Some [CHR 0x1C, CHR ''5'']\<rparr>"
      "[CHR 0x1C, CHR ''5'']" sample_today sample_state client_session 1]
    book_tour_passengers[of
      "\<lparr>bf_travel_date = Some ''2026-06-14'',
        bf_passengers = Some (replicate 4300 (CHR ''0'') @ ''1'')\<rparr>"
      "replicate 4300 (CHR ''0'') @ ''1''" sample_today sample_state client_session 1]
  by (simp add: py_int_examples py_int_separators long_numeral)

section \<open>Travel date window\<close>

lemma register_example:
  "bookings (fst (register_post sample_today sample_hash sample_state pending_session new_client_form))
     \<noteq> bookings sample_state"
  by (simp add: register_post_def new_client_form_def sample_state_sel admin_user_def
      client_user_def Let_def
      user_get_next_id_def add_user_def complete_pending_booking_def pending_session_def
      check_ok_example altai_tour_id booking_get_next_id_def add_booking_def
      altai_tour_def map_event_def altai_event_def or_real_def)

text \<open>
  Claim C2, as amended. A booking is created, by the direct request at POST /book/{id} or
  at registration from the intent held in the session, only if the travel date parses to a
  date \<open>d\<close> with today \<open>\<le> d \<le>\<close> the same month and day of the next year, where today
  is the date of the request that creates the booking. The upper end is
  \<^verbatim>\<open>today.replace(year=today.year + 1)\<close>, which lies 365 or 366 days after today.
\<close>

theorem booking_date_window:
  "(bookings (fst (book_tour today st sess tour_id form)) \<noteq> bookings st \<longrightarrow>
      (\<exists>s d m. bf_travel_date form = Some s \<and> strptime s = Some d \<and>
               replace_year today (year today + 1) = Some m \<and>
               date_le today d \<and> date_le d m)) \<and>
   (bookings (fst (register_post rtoday hash rst rsess rform)) \<noteq> bookings rst \<longrightarrow>
      (\<exists>bd d m. s_booking_data rsess = Some bd \<and> strptime (bd_travel_date bd) = Some d \<and>
                replace_year rtoday (year rtoday + 1) = Some m \<and>
                date_le rtoday d \<and> date_le d m))"
proof (intro conjI impI)
  assume "bookings (fst (book_tour today st sess tour_id form)) \<noteq> bookings st"
  from book_tour_created[OF this]
  obtain s where "bf_travel_date form = Some s" "check_travel_date today s = DateOk"
    by blast
  then show "\<exists>s d m. bf_travel_date form = Some s \<and> strptime s = Some d \<and>
               replace_year today (year today + 1) = Some m \<and> date_le today d \<and> date_le d m"
    by (auto simp: check_travel_date_ok)
next
  assume "bookings (fst (register_post rtoday hash rst rsess rform)) \<noteq> bookings rst"
  from register_post_created[OF this]
  obtain bd where "s_booking_data rsess = Some bd"
    "check_travel_date rtoday (bd_travel_date bd) = DateOk"
    by blast
  then show "\<exists>bd d m. s_booking_data rsess = Some bd \<and> strptime (bd_travel_date bd) = Some d \<and>
                replace_year rtoday (year rtoday + 1) = Some m \<and> date_le rtoday d \<and> date_le d m"
    by (auto simp: check_travel_date_ok)
qed

theorem booking_date_window_witness:
  "(\<exists>d m. strptime ''2026-06-14'' = Some d \<and>
          replace_year sample_today (year sample_today + 1) = Some m \<and>
          date_le sample_today d \<and> date_le d m) \<and>
   (\<exists>bd d m. s_booking_data pending_session = Some bd \<and> strptime (bd_travel_date bd) = Some d \<and>
             replace_year sample_today (year sample_today + 1) = Some m \<and>
             date_le sample_today d \<and> date_le d m)"
  using book_example register_example
    booking_date_window[where today = sample_today and st = sample_state
      and sess = client_session and tour_id = 1
      and form = "\<lparr>bf_travel_date = Some ''2026-06-14'', bf_passengers = Some ''2''\<rparr>"
      and rtoday = sample_today and hash = sample_hash and rst = sample_state
      and rsess = pending_session and rform = new_client_form]
  by simp

text \<open>
  The claim as stated bounds the travel date by today + 365 days. On 2 March 2023 a
  logged-in user books for 2 March 2024: the booking is created, and the travel date lies
  after 1 March 2024, which is today + 365 days.
\<close>

theorem booking_365_days_counterexample:
  "bookings (fst (book_tour leap_span_today sample_state client_session 1
      \<lparr>bf_travel_date = Some ''2024-03-02'', bf_passengers = Some ''2''\<rparr>)) \<noteq> bookings sample_state \<and>
   strptime ''2024-03-02'' = Some \<lparr>year = 2024, month = 3, day = 2\<rparr> \<and>
   date_add_days leap_span_today 365 = Some \<lparr>year = 2024, month = 3, day = 1\<rparr> \<and>
   date_less \<lparr>year = 2024, month = 3, day = 1\<rparr> \<lparr>year = 2024, month = 3, day = 2\<rparr>"
proof -
  have p: "strptime ''2024-03-02'' = Some \<lparr>year = 2024, month = 3, day = 2\<rparr>"
    by (simp add: date_defs)
  have c: "check_travel_date leap_span_today ''2024-03-02'' = DateOk"
    by (simp add: date_defs leap_span_today_def)
  have b: "bookings (fst (book_tour leap_span_today sample_state client_session 1
      \<lparr>bf_travel_date = Some ''2024-03-02'', bf_passengers = Some ''2''\<rparr>)) \<noteq> bookings sample_state"
    by (simp add: book_tour_def altai_tour_id form_passengers_def py_int_examples c
      logged_in_def client_session_def Let_def booking_get_next_id_def add_booking_def
      sample_state_sel)
  have o: "toordinal leap_span_today = 738581"
    by (simp add: toordinal_def days_before_year_def days_before_month_def is_leap_def
        leap_span_today_def)
  have f: "fromordinal 738946 = \<lparr>year = 2024, month = 3, day = 1\<rparr>"
    unfolding fromordinal_def by (simp add: Let_def)
  have a: "date_add_days leap_span_today 365 = Some \<lparr>year = 2024, month = 3, day = 1\<rparr>"
    by (simp add: date_add_days_def o f)
  have l: "date_less \<lparr>year = 2024, month = 3, day = 1\<rparr> \<lparr>year = 2024, month = 3, day = 2\<rparr>"
    by (simp add: date_less_def)
  from p b a l show ?thesis by blast
qed

section \<open>Total price\<close>

lemma unit_price_as_claimed: "unit_price t = claimed_unit_price t"
  by (simp add: unit_price_def claimed_unit_price_def split: option.splits)

lemma book_tour_total_price:
  assumes "bookings (fst (book_tour today st sess tour_id form)) \<noteq> bookings st"
  shows "\<exists>tour b. tour_get_by_id (tours st) tour_id = Some tour \<and>
           bookings (fst (book_tour today st sess tour_id form)) = bookings st @ [b] \<and>
           b_total_price b = claimed_unit_price tour * real_of_int (b_passengers b)"
  using book_tour_created[OF assms] by (auto simp: unit_price_as_claimed)

lemma free_entry_tour_sel:
  "t_id free_entry_tour = 1" "t_price free_entry_tour = Some 50"
  "t_min_price free_entry_tour = Some 0" "t_max_price free_entry_tour = Some 50"
  "t_start_date free_entry_tour = Some ''2026-06-14''"
  by (simp_all add: free_entry_tour_def map_event_def free_entry_event_def altai_event_def
      or_real_def)

lemma sample_threshold:
  "date_add_days sample_today MIN_LEAD_DAYS = Some \<lparr>year = 2026, month = 3, day = 12\<rparr>"
proof -
  have o: "toordinal sample_today = 739657"
    by (simp add: toordinal_def days_before_year_def days_before_month_def is_leap_def
        sample_today_def)
  have f: "fromordinal 739687 = \<lparr>year = 2026, month = 3, day = 12\<rparr>"
    unfolding fromordinal_def by (simp add: Let_def)
  show ?thesis by (simp add: date_add_days_def MIN_LEAD_DAYS_def o f)
qed

lemma strptime_june_14: "strptime ''2026-06-14'' = Some \<lparr>year = 2026, month = 6, day = 14\<rparr>"
  by (simp add: date_defs)

lemma free_entry_sync:
  "sync_events sample_today plain_compose free_entry_source None None None sample_state =
     Inr free_entry_state"
proof -
  have m: "map_events plain_compose [free_entry_event] = [free_entry_tour]"
    by (simp add: map_events_def free_entry_tour_def)
  have f: "filter_future_ready sample_today [free_entry_tour] = Inr [free_entry_tour]"
    by (simp add: filter_future_ready_def sample_threshold free_entry_tour_sel strptime_june_14
        date_le_def date_less_def)
  show ?thesis
    by (simp add: sync_events_def free_entry_source_def m f free_entry_state_def)
qed

lemma free_entry_state_sel:
  "bookings free_entry_state = []" "booking_next_id free_entry_state = 1"
  "users free_entry_state = [admin_user, client_user]" "user_next_id free_entry_state = 3"
  "tours free_entry_state = [free_entry_tour]"
  by (simp_all add: free_entry_state_def sample_state_def)

text \<open>
  Claim C1 says that every booking the workflow creates, directly or at registration, has
  total_price = unit price times passengers, the unit price being min_price if present,
  else max_price, else price, else 0. The direct path does so (\<open>book_tour_total_price\<close>);
  the path at registration multiplies \<^verbatim>\<open>tour.price\<close> instead. The event source returns
  an event with price_min 0 and price_max 50; \<^verbatim>\<open>_map_events\<close> gives the tour min_price 0
  and price 50. An anonymous request for 2 passengers leaves the intent in the session,
  and the registration that follows stores a booking with total_price 100, while the unit
  price of the claim gives 0, which is also what the direct path stores for the same tour
  and passengers.
\<close>

theorem deferred_booking_total_price:
  "sync_events sample_today plain_compose free_entry_source None None None sample_state =
     Inr free_entry_state \<and>
   tour_get_by_id (tours free_entry_state) 1 = Some free_entry_tour \<and>
   t_min_price free_entry_tour = Some 0 \<and> t_price free_entry_tour = Some 50 \<and>
   claimed_unit_price free_entry_tour * 2 = 0 \<and>
   s_booking_data (fst (snd (book_tour sample_today free_entry_state anonymous_session 1
      \<lparr>bf_travel_date = Some ''2026-06-14'', bf_passengers = Some ''2''\<rparr>))) =
     s_booking_data pending_session \<and>
   map b_passengers (bookings (fst (register_post sample_today sample_hash free_entry_state
      pending_session new_client_form))) = [2] \<and>
   map b_total_price (bookings (fst (register_post sample_today sample_hash free_entry_state
      pending_session new_client_form))) = [100] \<and>
   map b_total_price (bookings (fst (book_tour sample_today free_entry_state client_session 1
      \<lparr>bf_travel_date = Some ''2026-06-14'', bf_passengers = Some ''2''\<rparr>))) = [0]"
proof -
  have a: "tour_get_by_id (tours free_entry_state) 1 = Some free_entry_tour"
    by (simp add: free_entry_state_sel free_entry_tour_sel)
  have b: "claimed_unit_price free_entry_tour * 2 = 0"
    by (simp add: claimed_unit_price_def free_entry_tour_sel)
  have c: "s_booking_data (fst (snd (book_tour sample_today free_entry_state anonymous_session 1
      \<lparr>bf_travel_date = Some ''2026-06-14'', bf_passengers = Some ''2''\<rparr>))) =
     s_booking_data pending_session"
    by (simp add: book_tour_def a form_passengers_def py_int_examples check_ok_example
        logged_in_def anonymous_session_def pending_session_def flash_def)
  have r: "bookings (fst (register_post sample_today sample_hash free_entry_state
      pending_session new_client_form)) =
      [\<lparr>b_id = 1, b_tour_id = 1, b_user_id = 3, b_booking_date = strftime_date sample_today,
        b_travel_date = ''2026-06-14'', b_passengers = 2, b_total_price = 100,
        b_status = ''confirmed''\<rparr>]"
    by (simp add: register_post_def new_client_form_def free_entry_state_sel admin_user_def
        client_user_def
        Let_def user_get_next_id_def add_user_def complete_pending_booking_def
        pending_session_def check_ok_example free_entry_tour_sel booking_get_next_id_def
        add_booking_def)
  have d: "bookings (fst (book_tour sample_today free_entry_state client_session 1
      \<lparr>bf_travel_date = Some ''2026-06-14'', bf_passengers = Some ''2''\<rparr>)) =
      [\<lparr>b_id = 1, b_tour_id = 1, b_user_id = 2, b_booking_date = strftime_date sample_today,
        b_travel_date = ''2026-06-14'', b_passengers = 2, b_total_price = 0,
        b_status = ''confirmed''\<rparr>]"
    by (simp add: book_tour_def a form_passengers_def py_int_examples check_ok_example
        logged_in_def client_session_def Let_def booking_get_next_id_def add_booking_def
        free_entry_state_sel unit_price_def free_entry_tour_sel)
  show ?thesis
    using free_entry_sync a b c free_entry_tour_sel by (simp add: r d)
qed

section \<open>Cancellation\<close>

lemma repo_cancel_booking_found:
  "booking_get_by_id bs i = Some b \<Longrightarrow>
     fst (repo_cancel_booking bs i) \<and>
     booking_get_by_id (snd (repo_cancel_booking bs i)) i = Some (b\<lparr>b_status := ''cancelled''\<rparr>)"
  by (induction bs) (auto split: if_splits prod.splits)

lemma repo_cancel_booking_others:
  "j \<noteq> i \<Longrightarrow> booking_get_by_id (snd (repo_cancel_booking bs i)) j = booking_get_by_id bs j"
  by (induction bs) (auto split: if_splits prod.splits)

lemma cancel_booking_effect:
  "fst (cancel_booking today st sess i) =
     (case logged_in sess of
        None \<Rightarrow> st
      | Some uid \<Rightarrow>
          (case booking_get_by_id (bookings st) i of
             None \<Rightarrow> st
           | Some b \<Rightarrow>
               (case (strptime (b_travel_date b), min_cancel_date today) of
                  (Some d, Some m) \<Rightarrow>
                    if b_user_id b = uid \<and> date_less m d
                    then st\<lparr>bookings := snd (repo_cancel_booking (bookings st) i)\<rparr>
                    else st
                | _ \<Rightarrow> st)))"
  by (auto simp: cancel_booking_def date_le_def split: option.splits prod.splits)

text \<open>
  Claim C3 says that a cancellation by the owner of an existing booking sets the status
  to cancelled exactly when the travel date lies strictly after the minimum-cancellable
  date: today with day + 3 when today's day of month is at most 28, otherwise the 3rd of
  the next month. What the handler does in general is \<open>cancel_booking_effect\<close>: it cancels
  only when \<^verbatim>\<open>date.replace\<close> produced that date. On 30 December 2026 the code asks for
  month 13, and on 27 February 2027 for 30 February; \<^verbatim>\<open>replace\<close> raises, the handler
  catches it as a travel-date error and leaves the booking as it was, although the travel
  date, 14 June 2027, lies months after 3 January and after 2 March.
\<close>

theorem cancel_rejected_at_month_end:
  "booking_get_by_id (bookings booked_state) 1 = Some summer_booking \<and>
   b_user_id summer_booking = 2 \<and> logged_in client_session = Some 2 \<and>
   strptime (b_travel_date summer_booking) = Some \<lparr>year = 2027, month = 6, day = 14\<rparr> \<and>
   date_less \<lparr>year = 2027, month = 1, day = 3\<rparr> \<lparr>year = 2027, month = 6, day = 14\<rparr> \<and>
   min_cancel_date december_30 = None \<and>
   cancel_booking december_30 booked_state client_session 1 =
     (booked_state, flash TravelDateError ''error'' client_session, Redirect MyBookings) \<and>
   date_less \<lparr>year = 2027, month = 3, day = 2\<rparr> \<lparr>year = 2027, month = 6, day = 14\<rparr> \<and>
   min_cancel_date february_27 = None \<and>
   cancel_booking february_27 booked_state client_session 1 =
     (booked_state, flash TravelDateError ''error'' client_session, Redirect MyBookings)"
proof -
  have g: "booking_get_by_id (bookings booked_state) 1 = Some summer_booking"
    by (simp add: booked_state_def summer_booking_def)
  have u: "b_user_id summer_booking = 2" "b_travel_date summer_booking = ''2027-06-14''"
    by (simp_all add: summer_booking_def)
  have l: "logged_in client_session = Some 2"
    by (simp add: logged_in_def client_session_def)
  have p: "strptime ''2027-06-14'' = Some \<lparr>year = 2027, month = 6, day = 14\<rparr>"
    by (simp add: date_defs)
  have d: "min_cancel_date december_30 = None"
    by (simp add: min_cancel_date_def december_30_def replace_month_day_def mk_date_def
        date_valid_def)
  have f: "min_cancel_date february_27 = None"
    by (simp add: min_cancel_date_def february_27_def replace_day_def mk_date_def
        date_valid_def days_in_month_def is_leap_def)
  have c1: "cancel_booking december_30 booked_state client_session 1 =
     (booked_state, flash TravelDateError ''error'' client_session, Redirect MyBookings)"
    by (simp add: cancel_booking_def l g u p d)
  have c2: "cancel_booking february_27 booked_state client_session 1 =
     (booked_state, flash TravelDateError ''error'' client_session, Redirect MyBookings)"
    by (simp add: cancel_booking_def l g u p f)
  have o: "date_less \<lparr>year = 2027, month = 1, day = 3\<rparr> \<lparr>year = 2027, month = 6, day = 14\<rparr>"
    "date_less \<lparr>year = 2027, month = 3, day = 2\<rparr> \<lparr>year = 2027, month = 6, day = 14\<rparr>"
    by (simp_all add: date_less_def)
  show ?thesis using g u l p d f c1 c2 o by simp
qed

section \<open>Catalog refresh\<close>

lemma strptime_Nil: "strptime [] = None"
  by (simp add: strptime_def parse_year_def)

lemma filter_loop_eq:
  "filter_loop threshold filtered ts =
     filtered @ filter (\<lambda>t. \<not> starts_too_soon threshold t) ts"
proof (induction ts arbitrary: filtered)
  case Nil
  show ?case by simp
next
  case (Cons t ts)
  show ?case
  proof (cases "t_start_date t")
    case None
    then show ?thesis by (simp add: Cons.IH starts_too_soon_def)
  next
    case (Some s)
    show ?thesis
    proof (cases "strptime s")
      case None
      with Some show ?thesis by (simp add: Cons.IH starts_too_soon_def)
    next
      case (Some d)
      with \<open>t_start_date t = Some s\<close> have "s \<noteq> []"
        by (auto simp: strptime_Nil)
      with Some \<open>t_start_date t = Some s\<close> show ?thesis
        by (simp add: Cons.IH starts_too_soon_def date_le_def)
    qed
  qed
qed

lemma filter_future_ready_eq:
  assumes "date_add_days utc_today MIN_LEAD_DAYS = Some threshold"
  shows "filter_future_ready utc_today ts =
           Inr (if filter (\<lambda>t. \<not> starts_too_soon threshold t) ts = [] then ts
                else filter (\<lambda>t. \<not> starts_too_soon threshold t) ts)"
  using assms by (simp add: filter_future_ready_def filter_loop_eq Let_def)

lemma map_events_from_Nil: "map_events_from compose idx evs = [] \<longleftrightarrow> evs = []"
  by (cases evs) simp_all

text \<open>
  Claim C4. Let the threshold be today (UTC) + 30 days; Python's dates end on 9999-12-31,
  so the hypothesis says that the clock is at least 30 days before that. Whenever the
  event source answers a refresh with a non-empty list, the refresh succeeds and the new
  catalog is not empty: it holds the normalized tours without exactly those whose start
  date parses and is earlier than the threshold (\<open>starts_too_soon\<close>; a tour with no start
  date or an unparseable one is kept), and all normalized tours when that would leave
  none. Hence \<^verbatim>\<open>search()\<close> with no filter parameter returns that catalog, which is not
  empty.
\<close>

theorem catalog_never_empty:
  assumes "date_add_days utc_today MIN_LEAD_DAYS = Some threshold"
  shows "(fetch_events city keyword classification_id \<noteq> [] \<longrightarrow>
            (\<exists>st'. sync_events utc_today compose fetch_events city keyword classification_id st
                     = Inr st' \<and>
                   tours st' \<noteq> [] \<and>
                   tours st' =
                     (let mapped = map_events compose (fetch_events city keyword classification_id);
                          kept = filter (\<lambda>t. \<not> starts_too_soon threshold t) mapped
                      in if kept = [] then mapped else kept))) \<and>
         (fetch_events None None None \<noteq> [] \<longrightarrow>
            (\<exists>st' q. search utc_today compose fetch_events st [] [] None None None [] = Inr (st', q) \<and>
                     q \<noteq> [] \<and> q = tours st'))"
proof (intro conjI impI)
  assume ne: "fetch_events city keyword classification_id \<noteq> []"
  let ?mapped = "map_events compose (fetch_events city keyword classification_id)"
  let ?kept = "filter (\<lambda>t. \<not> starts_too_soon threshold t) ?mapped"
  have m: "?mapped \<noteq> []"
    using ne by (simp add: map_events_def map_events_from_Nil)
  have s: "sync_events utc_today compose fetch_events city keyword classification_id st =
             Inr (st\<lparr>tours := (if ?kept = [] then ?mapped else ?kept)\<rparr>)"
    using ne by (simp add: sync_events_def Let_def filter_future_ready_eq[OF assms])
  show "\<exists>st'. sync_events utc_today compose fetch_events city keyword classification_id st = Inr st' \<and>
          tours st' \<noteq> [] \<and>
          tours st' = (let mapped = ?mapped; kept = filter (\<lambda>t. \<not> starts_too_soon threshold t) mapped
                       in if kept = [] then mapped else kept)"
    using m by (simp add: s Let_def)
next
  assume ne: "fetch_events None None None \<noteq> []"
  let ?mapped = "map_events compose (fetch_events None None None)"
  let ?kept = "filter (\<lambda>t. \<not> starts_too_soon threshold t) ?mapped"
  have m: "?mapped \<noteq> []"
    using ne by (simp add: map_events_def map_events_from_Nil)
  have s: "sync_events utc_today compose fetch_events None None None st =
             Inr (st\<lparr>tours := (if ?kept = [] then ?mapped else ?kept)\<rparr>)"
    using ne by (simp add: sync_events_def Let_def filter_future_ready_eq[OF assms])
  show "\<exists>st' q. search utc_today compose fetch_events st [] [] None None None [] = Inr (st', q) \<and>
          q \<noteq> [] \<and> q = tours st'"
    using m by (simp add: search_def search_filters_def s Let_def)
qed

lemma june_threshold:
  "date_add_days june_2 MIN_LEAD_DAYS = Some \<lparr>year = 2026, month = 7, day = 2\<rparr>"
proof -
  have o: "toordinal june_2 = 739769"
    by (simp add: toordinal_def days_before_year_def days_before_month_def is_leap_def june_2_def)
  have f: "fromordinal 739799 = \<lparr>year = 2026, month = 7, day = 2\<rparr>"
    unfolding fromordinal_def by (simp add: Let_def)
  show ?thesis by (simp add: date_add_days_def MIN_LEAD_DAYS_def o f)
qed

lemma altai_too_soon: "starts_too_soon \<lparr>year = 2026, month = 7, day = 2\<rparr> altai_tour"
  by (simp add: starts_too_soon_def altai_tour_def map_event_def altai_event_def
      strptime_june_14 date_less_def)

theorem catalog_never_empty_witness:
  "date_add_days june_2 MIN_LEAD_DAYS = Some \<lparr>year = 2026, month = 7, day = 2\<rparr> \<and>
   altai_source None None None \<noteq> [] \<and>
   starts_too_soon \<lparr>year = 2026, month = 7, day = 2\<rparr> altai_tour \<and>
   (\<exists>st'. sync_events june_2 plain_compose altai_source None None None sample_state = Inr st' \<and>
          tours st' \<noteq> [] \<and> tours st' = [altai_tour]) \<and>
   (\<exists>st' q. search june_2 plain_compose altai_source sample_state [] [] None None None []
              = Inr (st', q) \<and> q \<noteq> [] \<and> q = tours st')"
proof -
  have ne: "altai_source None None None \<noteq> []"
    by (simp add: altai_source_def)
  have m: "map_events plain_compose (altai_source None None None) = [altai_tour]"
    by (simp add: map_events_def altai_source_def altai_tour_def)
  show ?thesis
    using catalog_never_empty[OF june_threshold, where fetch_events = altai_source
        and city = None and keyword = None and classification_id = None
        and compose = plain_compose and st = sample_state] ne altai_too_soon june_threshold
    by (simp add: m)
qed

section \<open>Price bounds of the search\<close>

lemma if_filter: "(if c then filter P xs else xs) = filter (\<lambda>x. c \<longrightarrow> P x) xs"
  by simp

lemma case_filter:
  "(case v of None \<Rightarrow> xs | Some a \<Rightarrow> filter (P a) xs) =
     filter (\<lambda>x. case v of None \<Rightarrow> True | Some a \<Rightarrow> P a x) xs"
  by (cases v) simp_all

lemma search_filters_as_filter:
  "search_filters location type min_price max_price duration keyword ts =
     filter (\<lambda>t. ((location \<noteq> [] \<longrightarrow>
                    py_in (py_lower location) (py_lower (t_city t)) \<or>
                    py_in (py_lower location) (py_lower (t_country t))) \<and>
                  (type \<noteq> [] \<longrightarrow> py_lower (t_type t) = py_lower type) \<and>
                  (case min_price of None \<Rightarrow> True | Some lo \<Rightarrow> lo \<le> price_or_0 t) \<and>
                  (case max_price of None \<Rightarrow> True | Some hi \<Rightarrow> price_or_0 t \<le> hi) \<and>
                  (case duration of None \<Rightarrow> True | Some n \<Rightarrow> t_duration_days t = n)) \<and>
                 (keyword \<noteq> [] \<longrightarrow>
                    py_in (py_lower keyword) (py_lower (t_title t)) \<or>
                    py_in (py_lower keyword) (py_lower (t_description t)))) ts"
  unfolding search_filters_def Let_def if_filter case_filter filter_filter
  by (simp add: conj_ac)

text \<open>
  Claim C6, as amended. In the in-memory filtering of the search operation both price
  bounds are inclusive, and a tour with an absent price counts as having price 0 for the
  lower bound and for the upper bound alike: searching with price bounds gives the tours of
  the same search without price bounds whose price, 0 when absent, is at least the lower
  bound and at most the upper bound, each bound applying only when it is given.
\<close>

theorem search_price_bounds:
  "search_filters location type min_price max_price duration keyword ts =
     filter (\<lambda>t. (case min_price of
                    None \<Rightarrow> True
                  | Some lo \<Rightarrow> lo \<le> (case t_price t of None \<Rightarrow> 0 | Some p \<Rightarrow> p)) \<and>
                 (case max_price of
                    None \<Rightarrow> True
                  | Some hi \<Rightarrow> (case t_price t of None \<Rightarrow> 0 | Some p \<Rightarrow> p) \<le> hi))
       (search_filters location type None None duration keyword ts) \<and>
   search utc_today compose fetch_events st location type min_price max_price duration keyword =
     (case search utc_today compose fetch_events st location type None None duration keyword of
        Inl e \<Rightarrow> Inl e
      | Inr (st', q) \<Rightarrow>
          Inr (st',
               filter (\<lambda>t. (case min_price of
                              None \<Rightarrow> True
                            | Some lo \<Rightarrow> lo \<le> (case t_price t of None \<Rightarrow> 0 | Some p \<Rightarrow> p)) \<and>
                           (case max_price of
                              None \<Rightarrow> True
                            | Some hi \<Rightarrow> (case t_price t of None \<Rightarrow> 0 | Some p \<Rightarrow> p) \<le> hi))
                 q))"
proof -
  have f: "search_filters location type min_price max_price duration keyword ts =
     filter (\<lambda>t. (case min_price of
                    None \<Rightarrow> True
                  | Some lo \<Rightarrow> lo \<le> (case t_price t of None \<Rightarrow> 0 | Some p \<Rightarrow> p)) \<and>
                 (case max_price of
                    None \<Rightarrow> True
                  | Some hi \<Rightarrow> (case t_price t of None \<Rightarrow> 0 | Some p \<Rightarrow> p) \<le> hi))
       (search_filters location type None None duration keyword ts)" for ts
    unfolding search_filters_as_filter filter_filter
    by (rule filter_cong[OF refl]) (auto simp: price_or_0_def split: option.splits)
  let ?synced = "sync_events utc_today compose fetch_events
      (if location = [] then None else Some location)
      (if keyword = [] then None else Some keyword) None st"
  have s: "\<And>lo hi. search utc_today compose fetch_events st location type lo hi duration keyword =
      (case ?synced of
         Inl e \<Rightarrow> Inl e
       | Inr st' \<Rightarrow> Inr (st', search_filters location type lo hi duration keyword (tours st')))"
    by (simp only: search_def Let_def)
  have g: "search utc_today compose fetch_events st location type min_price max_price duration keyword =
     (case search utc_today compose fetch_events st location type None None duration keyword of
        Inl e \<Rightarrow> Inl e
      | Inr (st', q) \<Rightarrow>
          Inr (st',
               filter (\<lambda>t. (case min_price of
                              None \<Rightarrow> True
                            | Some lo \<Rightarrow> lo \<le> (case t_price t of None \<Rightarrow> 0 | Some p \<Rightarrow> p)) \<and>
                           (case max_price of
                              None \<Rightarrow> True
                            | Some hi \<Rightarrow> (case t_price t of None \<Rightarrow> 0 | Some p \<Rightarrow> p) \<le> hi))
                 q))"
  proof (cases ?synced)
    case (Inl e)
    then show ?thesis by (simp only: s sum.case)
  next
    case (Inr st')
    then show ?thesis by (simp only: s sum.case prod.case f)
  qed
  from f g show ?thesis by (rule conjI)
qed

text \<open>
  The claim as stated has the absent price count as 0 for the lower bound only. With the
  upper bound 0 a tour without price is kept, with the upper bound -1 it is dropped: the
  upper bound compares the price 0 as well.
\<close>

theorem absent_price_upper_bound_counterexample:
  "t_price unpriced_tour = None \<and>
   search_filters [] [] None (Some 0) None [] [unpriced_tour] = [unpriced_tour] \<and>
   search_filters [] [] None (Some (- 1)) None [] [unpriced_tour] = []"
  by (simp add: search_filters_def price_or_0_def unpriced_tour_def)

section \<open>Responding to feedback\<close>

lemma strftime_datetime_not_empty: "strftime_datetime now \<noteq> []"
  by (simp add: strftime_datetime_def strftime_date_def dec2_def)

lemma respond_found:
  "feedback_get_by_id fs i = Some f \<Longrightarrow>
     fst (respond_to_feedback now fs i reply admin) \<and>
     feedback_get_by_id (snd (respond_to_feedback now fs i reply admin)) i =
       Some (f\<lparr>f_admin_response := Some reply, f_admin_id := Some admin,
               f_responded_at := Some (strftime_datetime now), f_status := ''resolved''\<rparr>)"
  by (induction fs) (auto split: if_splits prod.splits)

lemma respond_others:
  "j \<noteq> i \<Longrightarrow>
     feedback_get_by_id (snd (respond_to_feedback now fs i reply admin)) j = feedback_get_by_id fs j"
  by (induction fs) (auto split: if_splits prod.splits)

lemma respond_missing:
  "feedback_get_by_id fs i = None \<Longrightarrow> respond_to_feedback now fs i reply admin = (False, fs)"
  by (induction fs) (auto split: if_splits prod.splits)

text \<open>
  Claim C7. If the store holds a feedback record \<open>f\<close> under the id, whatever its status,
  then \<^verbatim>\<open>respond_to_feedback\<close> returns \<^verbatim>\<open>True\<close>, and looking the id up afterwards yields
  \<open>f\<close> with status \<^verbatim>\<open>resolved\<close>, the response text, the admin id and a non-empty time
  stamp in \<^verbatim>\<open>responded_at\<close>, all other fields as before. If no record has the id, it
  returns \<^verbatim>\<open>False\<close> and the list of records is the same.
\<close>

theorem respond_then_get:
  "(feedback_get_by_id fs i = Some f \<longrightarrow>
      fst (respond_to_feedback now fs i reply admin) \<and>
      (\<exists>g ts. feedback_get_by_id (snd (respond_to_feedback now fs i reply admin)) i = Some g \<and>
              f_status g = ''resolved'' \<and> f_admin_response g = Some reply \<and>
              f_admin_id g = Some admin \<and> f_responded_at g = Some ts \<and> ts \<noteq> [] \<and>
              ts = strftime_datetime now \<and>
              g = f\<lparr>f_admin_response := Some reply, f_admin_id := Some admin,
                    f_responded_at := Some ts, f_status := ''resolved''\<rparr>)) \<and>
   (feedback_get_by_id fs i = None \<longrightarrow> respond_to_feedback now fs i reply admin = (False, fs))"
  using respond_found[of fs i f now reply admin] respond_missing[of fs i now reply admin]
    strftime_datetime_not_empty[of now]
  by auto

theorem respond_then_get_witness:
  "feedback_get_by_id [closed_feedback] 3 = Some closed_feedback \<and>
   f_status closed_feedback = ''closed'' \<and>
   fst (respond_to_feedback sample_now [closed_feedback] 3 ''Refund sent.'' 1) \<and>
   (\<exists>g ts. feedback_get_by_id
             (snd (respond_to_feedback sample_now [closed_feedback] 3 ''Refund sent.'' 1)) 3 = Some g \<and>
           f_status g = ''resolved'' \<and> f_admin_response g = Some ''Refund sent.'' \<and>
           f_admin_id g = Some 1 \<and> f_responded_at g = Some ts \<and> ts \<noteq> []) \<and>
   feedback_get_by_id [closed_feedback] 7 = None \<and>
   respond_to_feedback sample_now [closed_feedback] 7 ''Refund sent.'' 1 = (False, [closed_feedback])"
proof -
  have a: "feedback_get_by_id [closed_feedback] 3 = Some closed_feedback"
    "feedback_get_by_id [closed_feedback] 7 = None" "f_status closed_feedback = ''closed''"
    by (simp_all add: closed_feedback_def)
  show ?thesis
    using a respond_then_get[of "[closed_feedback]" 3 closed_feedback sample_now "''Refund sent.''" 1]
      respond_then_get[of "[closed_feedback]" 7 closed_feedback sample_now "''Refund sent.''" 1]
    by auto
qed

section \<open>Priority of submitted feedback\<close>

lemma submit_feedback_priority:
  assumes "feedbacks (fst (submit_feedback now st sess form)) \<noteq> feedbacks st"
  shows "\<exists>fb. feedbacks (fst (submit_feedback now st sess form)) = feedbacks st @ [fb] \<and>
              f_priority fb = (case ff_priority form of None \<Rightarrow> ''normal'' | Some p \<Rightarrow> p)"
  using assms
  by (auto simp: submit_feedback_def Let_def feedback_get_next_id_def add_feedback_def
      form_get_def split: option.splits if_splits)

text \<open>
  Claim C8 says that the priority stored by an accepted POST /feedback is one of low,
  normal, high, urgent, the route putting normal in place of an invalid or absent value.
  The route takes the form value as it comes (\<open>submit_feedback_priority\<close>) and uses normal
  only when the field is absent. A logged-in user submits the priority \<^verbatim>\<open>bogus\<close>: the
  submission is accepted and the record is stored with priority \<^verbatim>\<open>bogus\<close>, after which the
  sort key of the admin feedback page raises \<^verbatim>\<open>KeyError\<close>. Without the priority field the
  same submission is stored with normal.
\<close>

theorem feedback_priority_not_checked:
  "map f_priority (feedbacks (fst (submit_feedback sample_now sample_state client_session
      bogus_priority_form))) = [''bogus''] \<and>
   ''bogus'' \<notin> set valid_priorities \<and>
   snd (snd (submit_feedback sample_now sample_state client_session bogus_priority_form)) =
     Redirect MyFeedback \<and>
   feedback_sort_keys (feedbacks (fst (submit_feedback sample_now sample_state client_session
      bogus_priority_form))) = Inl KeyError \<and>
   map f_priority (feedbacks (fst (submit_feedback sample_now sample_state client_session
      (bogus_priority_form\<lparr>ff_priority := None\<rparr>)))) = [''normal'']"
proof -
  have s: "py_strip ''Test Subject'' = ''Test Subject''"
    "py_strip ''Test message content'' = ''Test message content''"
    by (simp_all add: py_strip_def is_space_def)
  have l: "logged_in client_session = Some 2"
    by (simp add: logged_in_def client_session_def)
  have e: "feedbacks sample_state = []" "feedback_next_id sample_state = 1"
    by (simp_all add: sample_state_def)
  have a: "feedbacks (fst (submit_feedback sample_now sample_state client_session
      bogus_priority_form)) =
      [\<lparr>f_id = 1, f_user_id = 2, f_subject = ''Test Subject'',
        f_message = ''Test message content'', f_created_at = strftime_datetime sample_now,
        f_status = ''new'', f_admin_response = None, f_admin_id = None, f_responded_at = None,
        f_priority = ''bogus'', f_category = ''general''\<rparr>]"
    by (simp add: submit_feedback_def l bogus_priority_form_def form_get_def s Let_def
        feedback_get_next_id_def add_feedback_def e)
  have b: "snd (snd (submit_feedback sample_now sample_state client_session bogus_priority_form)) =
     Redirect MyFeedback"
    by (simp add: submit_feedback_def l bogus_priority_form_def form_get_def s Let_def
        feedback_get_next_id_def add_feedback_def e)
  have c: "map f_priority (feedbacks (fst (submit_feedback sample_now sample_state client_session
      (bogus_priority_form\<lparr>ff_priority := None\<rparr>)))) = [''normal'']"
    by (simp add: submit_feedback_def l bogus_priority_form_def form_get_def s Let_def
        feedback_get_next_id_def add_feedback_def e)
  have k: "priority_rank ''bogus'' = Inl KeyError"
    by (simp add: priority_rank_def)
  have v: "''bogus'' \<notin> set valid_priorities"
    by (simp add: valid_priorities_def)
  show ?thesis using b c v by (simp add: a k)
qed

section \<open>Registration and the pending booking intent\<close>

lemma register_post_valid:
  assumes "rf_password form = Some pw" "rf_confirm_password form = Some pw" "6 \<le> length pw"
    "get_by_email (users st) (rf_email form) = None"
  shows "register_post today hash st sess form =
           complete_pending_booking today (registered_user hash st form pw)
             (st\<lparr>user_next_id := user_next_id st + 1,
                 users := users st @ [registered_user hash st form pw]\<rparr>) sess"
  using assms
  by (simp add: register_post_def Let_def user_get_next_id_def add_user_def registered_user_def)

lemma complete_pending_users:
  "users (fst (complete_pending_booking today usr st sess)) = users st"
  by (auto simp: complete_pending_booking_def Let_def booking_get_next_id_def add_booking_def
      split: option.splits date_check.splits)

lemma complete_pending_no_intent:
  "s_booking_data sess = None \<Longrightarrow>
     complete_pending_booking today usr st sess =
       (st, flash RegisteredNowLogIn ''success'' sess, Redirect Login)"
  by (simp add: complete_pending_booking_def)

lemma complete_pending_rejected:
  "s_booking_data sess = Some bd \<Longrightarrow> check_travel_date today (bd_travel_date bd) \<noteq> DateOk \<Longrightarrow>
     fst (complete_pending_booking today usr st sess) = st \<and>
     s_user_id (fst (snd (complete_pending_booking today usr st sess))) = s_user_id sess \<and>
     s_email (fst (snd (complete_pending_booking today usr st sess))) = s_email sess \<and>
     s_role (fst (snd (complete_pending_booking today usr st sess))) = s_role sess \<and>
     s_booking_data (fst (snd (complete_pending_booking today usr st sess))) = None \<and>
     snd (snd (complete_pending_booking today usr st sess)) = Redirect Home"
  by (cases "check_travel_date today (bd_travel_date bd)")
     (simp_all add: complete_pending_booking_def flash_def)

lemma complete_pending_logs_in:
  "s_booking_data sess = Some bd \<Longrightarrow> check_travel_date today (bd_travel_date bd) = DateOk \<Longrightarrow>
     s_user_id (fst (snd (complete_pending_booking today usr st sess))) = Some (u_id usr) \<and>
     s_email (fst (snd (complete_pending_booking today usr st sess))) = u_email usr \<and>
     s_role (fst (snd (complete_pending_booking today usr st sess))) = Some (u_role usr)"
  by (auto simp: complete_pending_booking_def Let_def booking_get_next_id_def flash_def
      split: option.splits prod.splits)

lemma complete_pending_stale:
  "s_booking_data sess = Some bd \<Longrightarrow> check_travel_date today (bd_travel_date bd) = DateOk \<Longrightarrow>
   tour_get_by_id (tours st) (bd_tour_id bd) = None \<Longrightarrow>
     complete_pending_booking today usr st sess =
       (st,
        flash RegisteredNowLogIn ''success''
          (sess\<lparr>s_user_id := Some (u_id usr), s_email := u_email usr, s_role := Some (u_role usr)\<rparr>),
        Redirect Login)"
  by (simp add: complete_pending_booking_def Let_def)

text \<open>
  Claim C9. Take a registration that passes the form checks (equal passwords of at least
  six characters, an e-mail not yet registered), so that the new user is stored. If it
  changes the session's user_id, email or role, then the session held a booking intent
  whose travel date passes the date check; and with such an intent the session afterwards
  carries the new user's id, e-mail and the role client. With no booking intent the three
  session entries stay as they were, so a session without user_id stays without, and the
  response redirects to the login page.
\<close>

theorem registration_login:
  assumes "rf_password form = Some pw" "rf_confirm_password form = Some pw" "6 \<le> length pw"
    "get_by_email (users st) (rf_email form) = None"
  shows "users (fst (register_post today hash st sess form)) =
           users st @ [registered_user hash st form pw] \<and>
         ((s_user_id (fst (snd (register_post today hash st sess form))) \<noteq> s_user_id sess \<or>
           s_email (fst (snd (register_post today hash st sess form))) \<noteq> s_email sess \<or>
           s_role (fst (snd (register_post today hash st sess form))) \<noteq> s_role sess) \<longrightarrow>
            (\<exists>bd. s_booking_data sess = Some bd \<and>
                  check_travel_date today (bd_travel_date bd) = DateOk)) \<and>
         ((\<exists>bd. s_booking_data sess = Some bd \<and>
                check_travel_date today (bd_travel_date bd) = DateOk) \<longrightarrow>
            s_user_id (fst (snd (register_post today hash st sess form))) = Some (user_next_id st) \<and>
            s_email (fst (snd (register_post today hash st sess form))) = rf_email form \<and>
            s_role (fst (snd (register_post today hash st sess form))) = Some ''client'') \<and>
         (s_booking_data sess = None \<longrightarrow>
            s_user_id (fst (snd (register_post today hash st sess form))) = s_user_id sess \<and>
            s_email (fst (snd (register_post today hash st sess form))) = s_email sess \<and>
            s_role (fst (snd (register_post today hash st sess form))) = s_role sess \<and>
            (s_user_id sess = None \<longrightarrow>
               s_user_id (fst (snd (register_post today hash st sess form))) = None) \<and>
            snd (snd (register_post today hash st sess form)) = Redirect Login)"
proof -
  let ?usr = "registered_user hash st form pw"
  let ?st = "st\<lparr>user_next_id := user_next_id st + 1, users := users st @ [?usr]\<rparr>"
  note r = register_post_valid[OF assms, of today hash sess]
  have u: "users (fst (register_post today hash st sess form)) = users st @ [?usr]"
    by (simp add: r complete_pending_users)
  have only: "\<exists>bd. s_booking_data sess = Some bd \<and>
                  check_travel_date today (bd_travel_date bd) = DateOk"
    if "s_user_id (fst (snd (register_post today hash st sess form))) \<noteq> s_user_id sess \<or>
        s_email (fst (snd (register_post today hash st sess form))) \<noteq> s_email sess \<or>
        s_role (fst (snd (register_post today hash st sess form))) \<noteq> s_role sess"
  proof (cases "s_booking_data sess")
    case None
    with that show ?thesis
      by (simp add: r complete_pending_no_intent flash_def)
  next
    case (Some bd)
    show ?thesis
    proof (cases "check_travel_date today (bd_travel_date bd) = DateOk")
      case True
      with Some show ?thesis by simp
    next
      case False
      from complete_pending_rejected[OF Some False, of ?usr ?st] that show ?thesis
        by (simp add: r)
    qed
  qed
  have logs: "s_user_id (fst (snd (register_post today hash st sess form))) = Some (user_next_id st) \<and>
            s_email (fst (snd (register_post today hash st sess form))) = rf_email form \<and>
            s_role (fst (snd (register_post today hash st sess form))) = Some ''client''"
    if "\<exists>bd. s_booking_data sess = Some bd \<and> check_travel_date today (bd_travel_date bd) = DateOk"
  proof -
    from that obtain bd where "s_booking_data sess = Some bd"
      "check_travel_date today (bd_travel_date bd) = DateOk" by blast
    from complete_pending_logs_in[OF this, of ?usr ?st] show ?thesis
      by (simp add: r registered_user_def)
  qed
  have none: "s_user_id (fst (snd (register_post today hash st sess form))) = s_user_id sess \<and>
            s_email (fst (snd (register_post today hash st sess form))) = s_email sess \<and>
            s_role (fst (snd (register_post today hash st sess form))) = s_role sess \<and>
            (s_user_id sess = None \<longrightarrow>
               s_user_id (fst (snd (register_post today hash st sess form))) = None) \<and>
            snd (snd (register_post today hash st sess form)) = Redirect Login"
    if "s_booking_data sess = None"
    using that by (simp add: r complete_pending_no_intent flash_def)
  from u only logs none show ?thesis by blast
qed

lemma new_client_form_valid:
  "rf_password new_client_form = Some ''password123''"
  "rf_confirm_password new_client_form = Some ''password123''"
  "6 \<le> length ''password123''"
  "get_by_email (users sample_state) (rf_email new_client_form) = None"
  by (simp_all add: new_client_form_def sample_state_sel admin_user_def client_user_def)

theorem registration_login_witness:
  "users (fst (register_post sample_today sample_hash sample_state pending_session new_client_form)) =
     users sample_state @ [registered_user sample_hash sample_state new_client_form ''password123''] \<and>
   s_user_id (fst (snd (register_post sample_today sample_hash sample_state pending_session
      new_client_form))) = Some 3 \<and>
   s_booking_data anonymous_session = None \<and> s_user_id anonymous_session = None \<and>
   users (fst (register_post sample_today sample_hash sample_state anonymous_session new_client_form)) =
     users sample_state @ [registered_user sample_hash sample_state new_client_form ''password123''] \<and>
   s_user_id (fst (snd (register_post sample_today sample_hash sample_state anonymous_session
      new_client_form))) = None \<and>
   snd (snd (register_post sample_today sample_hash sample_state anonymous_session new_client_form)) =
     Redirect Login"
proof -
  have p: "\<exists>bd. s_booking_data pending_session = Some bd \<and>
             check_travel_date sample_today (bd_travel_date bd) = DateOk"
    by (simp add: pending_session_def check_ok_example)
  have a: "s_booking_data anonymous_session = None" "s_user_id anonymous_session = None"
    by (simp_all add: anonymous_session_def)
  show ?thesis
    using registration_login[OF new_client_form_valid, of sample_today sample_hash pending_session]
      registration_login[OF new_client_form_valid, of sample_today sample_hash anonymous_session]
      p a
    by (simp add: sample_state_sel)
qed

text \<open>
  Claim C10, as amended. Take a registration that passes the form checks, with a booking
  intent in the session whose travel date passes the date check and whose tour id is not in
  the catalog. Then the new user is stored, no booking is added, the intent is still in the
  session, the success message of the registration is flashed (with the new user logged in)
  and the response redirects to the login page.
\<close>

theorem stale_intent_registration:
  assumes "rf_password form = Some pw" "rf_confirm_password form = Some pw" "6 \<le> length pw"
    "get_by_email (users st) (rf_email form) = None"
    and "s_booking_data sess = Some bd"
    and "check_travel_date today (bd_travel_date bd) = DateOk"
    and "tour_get_by_id (tours st) (bd_tour_id bd) = None"
  shows "users (fst (register_post today hash st sess form)) =
           users st @ [registered_user hash st form pw] \<and>
         bookings (fst (register_post today hash st sess form)) = bookings st \<and>
         s_booking_data (fst (snd (register_post today hash st sess form))) = Some bd \<and>
         s_flashes (fst (snd (register_post today hash st sess form))) =
           s_flashes sess @ [(RegisteredNowLogIn, ''success'')] \<and>
         s_user_id (fst (snd (register_post today hash st sess form))) = Some (user_next_id st) \<and>
         snd (snd (register_post today hash st sess form)) = Redirect Login"
proof -
  let ?usr = "registered_user hash st form pw"
  let ?st = "st\<lparr>user_next_id := user_next_id st + 1, users := users st @ [?usr]\<rparr>"
  have t: "tour_get_by_id (tours ?st) (bd_tour_id bd) = None"
    using assms(7) by simp
  have eq: "register_post today hash st sess form =
      (?st,
       flash RegisteredNowLogIn ''success''
         (sess\<lparr>s_user_id := Some (u_id ?usr), s_email := u_email ?usr,
               s_role := Some (u_role ?usr)\<rparr>),
       Redirect Login)"
    by (simp only: register_post_valid[OF assms(1-4)]
        complete_pending_stale[OF assms(5) assms(6) t])
  show ?thesis
    by (simp add: eq flash_def assms(5) registered_user_def)
qed

theorem stale_intent_registration_witness:
  "s_booking_data stale_session =
     Some \<lparr>bd_tour_id = 99, bd_travel_date = ''2026-06-14'', bd_passengers = 2\<rparr> \<and>
   tour_get_by_id (tours sample_state) 99 = None \<and>
   bookings (fst (register_post sample_today sample_hash sample_state stale_session
      new_client_form)) = bookings sample_state \<and>
   s_booking_data (fst (snd (register_post sample_today sample_hash sample_state stale_session
      new_client_form))) =
     Some \<lparr>bd_tour_id = 99, bd_travel_date = ''2026-06-14'', bd_passengers = 2\<rparr> \<and>
   s_flashes (fst (snd (register_post sample_today sample_hash sample_state stale_session
      new_client_form))) = [(RegisteredNowLogIn, ''success'')] \<and>
   snd (snd (register_post sample_today sample_hash sample_state stale_session new_client_form)) =
     Redirect Login"
proof -
  have b: "s_booking_data stale_session =
     Some \<lparr>bd_tour_id = 99, bd_travel_date = ''2026-06-14'', bd_passengers = 2\<rparr>"
    by (simp add: stale_session_def)
  have c: "check_travel_date sample_today
      (bd_travel_date \<lparr>bd_tour_id = 99, bd_travel_date = ''2026-06-14'', bd_passengers = 2\<rparr>) = DateOk"
    by (simp add: check_ok_example)
  have t: "tour_get_by_id (tours sample_state)
      (bd_tour_id \<lparr>bd_tour_id = 99, bd_travel_date = ''2026-06-14'', bd_passengers = 2\<rparr>) = None"
    by (simp add: sample_state_sel altai_tour_id)
  have f: "s_flashes stale_session = []"
    by (simp add: stale_session_def)
  show ?thesis
    using stale_intent_registration[OF new_client_form_valid b c t, of sample_hash] b t
    by (simp add: f)
qed

text \<open>
  The claim as stated does not ask for the date check to pass. On 10 February 2026 a
  visitor registers with an intent for 3 February 2026 and the tour id 99, which the
  catalog does not hold: the user is stored, but the intent is removed from the session,
  the message flashed is the error about a travel date in the past, and the response
  redirects to the home page.
\<close>

theorem stale_expired_intent_counterexample:
  "tour_get_by_id (tours sample_state) 99 = None \<and>
   s_booking_data stale_expired_session =
     Some \<lparr>bd_tour_id = 99, bd_travel_date = ''2026-02-03'', bd_passengers = 2\<rparr> \<and>
   users (fst (register_post sample_today sample_hash sample_state stale_expired_session
      new_client_form)) =
     users sample_state @ [registered_user sample_hash sample_state new_client_form ''password123''] \<and>
   s_booking_data (fst (snd (register_post sample_today sample_hash sample_state
      stale_expired_session new_client_form))) = None \<and>
   s_flashes (fst (snd (register_post sample_today sample_hash sample_state
      stale_expired_session new_client_form))) = [(TravelDateInPast, ''error'')] \<and>
   snd (snd (register_post sample_today sample_hash sample_state stale_expired_session
      new_client_form)) = Redirect Home"
proof -
  have t: "tour_get_by_id (tours sample_state) 99 = None"
    by (simp add: sample_state_sel altai_tour_id)
  have b: "s_booking_data stale_expired_session =
     Some \<lparr>bd_tour_id = 99, bd_travel_date = ''2026-02-03'', bd_passengers = 2\<rparr>"
    "s_flashes stale_expired_session = []"
    by (simp_all add: stale_expired_session_def)
  have c: "check_travel_date sample_today ''2026-02-03'' = DateInPast"
    by (simp add: date_defs sample_today_def)
  show ?thesis
    using t b
    by (simp add: register_post_valid[OF new_client_form_valid] complete_pending_booking_def c
        flash_def)
qed

end
